theory Spec2Isabelle
  imports Main "HOL-Library.Multiset" "HOL-Library.AList"
begin

section \<open>Go values\<close>

text \<open>
  A Go slice is either \<^verbatim>\<open>nil\<close> or a sequence of elements; both have a length and both
  can be ranged over and appended to. \<open>None\<close> is the nil slice.
\<close>

type_synonym 'a slice = "'a list option"

definition elems :: "'a slice \<Rightarrow> 'a list" where
  "elems s = (case s of None \<Rightarrow> [] | Some xs \<Rightarrow> xs)"

definition len :: "'a slice \<Rightarrow> nat" where
  "len s = length (elems s)"

text \<open>
  \<^verbatim>\<open>append(s, x1, ..., xn)\<close>: with no new element the slice comes back as it is (nil
  stays nil), otherwise the result is a non-nil slice.
\<close>

definition append_slice :: "'a slice \<Rightarrow> 'a list \<Rightarrow> 'a slice" where
  "append_slice s xs = (if xs = [] then s else Some (elems s @ xs))"

text \<open>
  A Go map is nil or a set of entries with pairwise different keys; \<open>None\<close> is the nil
  map. The language does not fix the order in which \<^verbatim>\<open>range\<close> visits the entries of
  a map. The order of one \<^verbatim>\<open>range\<close> statement is therefore a parameter of the model:
  a ranking of the keys, the entries being visited by increasing rank. Every ranking gives
  a permutation of the entries, and every permutation of a map's entries is the visiting
  order of some ranking (\<open>range_map_any_order\<close> below).
\<close>

type_synonym ('k, 'v) gomap = "('k \<times> 'v) list option"

definition range_map :: "('k \<Rightarrow> nat) \<Rightarrow> ('k, 'v) gomap \<Rightarrow> ('k \<times> 'v) list" where
  "range_map order m = sort_key (\<lambda>kv. order (fst kv)) (elems m)"

text \<open>\<^verbatim>\<open>strings.Join(parts, sep)\<close>.\<close>

fun Join :: "string list \<Rightarrow> string \<Rightarrow> string" where
  "Join [] sep = []"
| "Join [p] sep = p"
| "Join (p # q # ps) sep = p @ sep @ Join (q # ps) sep"

section \<open>The specification model (spec.go)\<close>

record ContainerSpec =
  Name :: string
  Image :: string
  Env :: "string slice"
  Volumes :: "string slice"
  Ports :: "string slice"
  Networks :: "string slice"
  Command :: "string slice"
  WorkingDir :: string
  Labels :: "(string, string) gomap"
  EntryPoint :: "string slice"
  Devices :: "string slice"
  ExtraHosts :: "string slice"
  Restart :: string

record RunOptions =
  RunOptions_Name :: string

section \<open>The command generator (generator.go)\<close>

text \<open>
  \<^verbatim>\<open>GenerateRunCommand(spec *ContainerSpec, opts *RunOptions) []string\<close>, lines 9 to 78.
  \<open>opts\<close> may be nil (\<open>None\<close>). \<open>spec\<close> is dereferenced on every path (line 20 at
  the latest), so the function is only ever called with a non-nil \<open>spec\<close>; the model takes
  the value it points to. \<open>order\<close> is the visiting order of the \<^verbatim>\<open>range\<close> over the
  label map (line 45). Each \<open>args\<^sub>i\<close> is the variable \<^verbatim>\<open>args\<close> after one statement.
\<close>

definition GenerateRunCommand ::
    "(string \<Rightarrow> nat) \<Rightarrow> ContainerSpec \<Rightarrow> RunOptions option \<Rightarrow> string slice" where
  "GenerateRunCommand order spec opts =
    (let args0 = None;
         from_spec = (if Name spec \<noteq> [] then append_slice args0 [''--name'', Name spec]
                      else args0);
         args1 = (case opts of
                    None \<Rightarrow> from_spec
                  | Some ro \<Rightarrow>
                      if RunOptions_Name ro \<noteq> []
                      then append_slice args0 [''--name'', RunOptions_Name ro]
                      else from_spec);
         args2 = foldl (\<lambda>args env. append_slice args [''-e'', env]) args1 (elems (Env spec));
         args3 = foldl (\<lambda>args vol. append_slice args [''-v'', vol]) args2 (elems (Volumes spec));
         args4 = foldl (\<lambda>args port. append_slice args [''-p'', port]) args3 (elems (Ports spec));
         args5 = foldl (\<lambda>args network. append_slice args [''--network'', network]) args4
                   (elems (Networks spec));
         args6 = (if WorkingDir spec \<noteq> [] then append_slice args5 [''-w'', WorkingDir spec]
                  else args5);
         args7 = foldl (\<lambda>args kv. append_slice args [''-l'', fst kv @ ''='' @ snd kv]) args6
                   (range_map order (Labels spec));
         args8 = foldl (\<lambda>args device. append_slice args [''--device'', device]) args7
                   (elems (Devices spec));
         args9 = foldl (\<lambda>args host. append_slice args [''--add-host'', host]) args8
                   (elems (ExtraHosts spec));
         args10 = (if Restart spec \<noteq> [] then append_slice args9 [''--restart'', Restart spec]
                   else args9);
         args11 = (if len (EntryPoint spec) > 0
                   then append_slice args10 [''--entrypoint'', elems (EntryPoint spec) ! 0]
                   else args10);
         args12 = append_slice args11 [Image spec];
         args13 = (if len (Command spec) > 0 then append_slice args12 (elems (Command spec))
                   else args12)
     in args13)"

text \<open>
  The second \<^verbatim>\<open>GenerateRunCommand\<close> of generator.go (lines 87 to 158) returns one string.
  It has the name of the first in the source; here it is \<open>GenerateRunCommandString\<close>.
  \<open>quote\<close> stands for the \<^verbatim>\<open>%q\<close> verb of \<^verbatim>\<open>fmt.Sprintf\<close> (Go's
  \<^verbatim>\<open>strconv.Quote\<close>), which is library code; \<^verbatim>\<open>%s\<close> inserts a string as it is.
\<close>

definition GenerateRunCommandString ::
    "(string \<Rightarrow> string) \<Rightarrow> (string \<Rightarrow> nat) \<Rightarrow> ContainerSpec \<Rightarrow> RunOptions option \<Rightarrow> string" where
  "GenerateRunCommandString quote order spec opts =
    (let parts0 = None;
         parts1 = append_slice parts0 [''docker run''];
         from_spec = (if Name spec \<noteq> [] then append_slice parts1 [''--name '' @ Name spec]
                      else parts1);
         parts2 = (case opts of
                     None \<Rightarrow> from_spec
                   | Some ro \<Rightarrow>
                       if RunOptions_Name ro \<noteq> []
                       then append_slice parts1 [''--name '' @ RunOptions_Name ro]
                       else from_spec);
         parts3 = foldl (\<lambda>parts env. append_slice parts [''-e '' @ quote env]) parts2
                    (elems (Env spec));
         parts4 = foldl (\<lambda>parts vol. append_slice parts [''-v '' @ vol]) parts3
                    (elems (Volumes spec));
         parts5 = foldl (\<lambda>parts port. append_slice parts [''-p '' @ port]) parts4
                    (elems (Ports spec));
         parts6 = foldl (\<lambda>parts network. append_slice parts [''--network '' @ network]) parts5
                    (elems (Networks spec));
         parts7 = (if WorkingDir spec \<noteq> [] then append_slice parts6 [''-w '' @ WorkingDir spec]
                   else parts6);
         parts8 = foldl (\<lambda>parts kv. append_slice parts [''-l '' @ fst kv @ ''='' @ quote (snd kv)])
                    parts7 (range_map order (Labels spec));
         parts9 = foldl (\<lambda>parts device. append_slice parts [''--device '' @ device]) parts8
                    (elems (Devices spec));
         parts10 = foldl (\<lambda>parts host. append_slice parts [''--add-host '' @ host]) parts9
                     (elems (ExtraHosts spec));
         parts11 = (if Restart spec \<noteq> [] then append_slice parts10 [''--restart '' @ Restart spec]
                    else parts10);
         parts12 = (if len (EntryPoint spec) > 0
                    then append_slice parts11 [''--entrypoint '' @ elems (EntryPoint spec) ! 0]
                    else parts11);
         parts13 = append_slice parts12 [Image spec];
         parts14 = (if len (Command spec) > 0
                    then append_slice parts13 [Join (elems (Command spec)) '' '']
                    else parts13)
     in Join (elems parts14) '' '')"

section \<open>JSON documents\<close>

text \<open>
  \<^verbatim>\<open>json.Unmarshal\<close> first checks that the text is valid JSON and then stores the value
  it denotes into the Go value it is given. The first step is Go's scanner, which is
  library code and a parameter of the model (\<open>scan\<close>: \<open>None\<close> for a text that is not
  valid JSON). Its result is the document as the decoder reads it: the members of an object
  in the order of the text, strings unescaped, every number as its literal.
\<close>

datatype json =
    JNull
  | JBool bool
  | JNumber string
  | JString string
  | JArray "json list"
  | JObject "(string \<times> json) list"

subsection \<open>Numbers\<close>

definition is_digit :: "char \<Rightarrow> bool" where
  "is_digit c = (c \<in> set ''0123456789'')"

definition digit_val :: "char \<Rightarrow> int" where
  "digit_val c = (case map_of (zip ''0123456789'' [0, 1, 2, 3, 4, 5, 6, 7, 8, 9]) c of
                    None \<Rightarrow> 0 | Some d \<Rightarrow> d)"

definition digits_val :: "string \<Rightarrow> int" where
  "digits_val ds = foldl (\<lambda>n c. 10 * n + digit_val c) 0 ds"

text \<open>
  \<^verbatim>\<open>strconv.ParseInt(s, 10, 64)\<close>, which decides whether a number literal fits a field of
  type \<^verbatim>\<open>int\<close> (64 bits wide): an optional sign, then decimal digits only, the value
  between \<open>- 2 ^ 63\<close> and \<open>2 ^ 63 - 1\<close>.
\<close>

definition ParseInt :: "string \<Rightarrow> int option" where
  "ParseInt s =
    (let neg = (take 1 s = ''-'');
         ds = (if take 1 s = ''-'' then drop 1 s else if take 1 s = ''+'' then drop 1 s else s);
         n = digits_val ds
     in if ds = [] then None
        else if \<not> list_all is_digit ds then None
        else if neg then (if n \<le> 2 ^ 63 then Some (- n) else None)
        else (if n < 2 ^ 63 then Some n else None))"

text \<open>
  Whether \<^verbatim>\<open>strconv.ParseFloat(s, 64)\<close> returns no error on a JSON number literal
  (\<^verbatim>\<open>-? digits (. digits)? ([eE] [+-]? digits)?\<close>): the value must round to a finite
  double, that is, its magnitude is below \<open>2 ^ 1024 - 2 ^ 970\<close>, half a unit in the last
  place above the largest double. A number stored into an \<^verbatim>\<open>interface{}\<close> goes
  through this conversion.
\<close>

definition ParseFloat_ok :: "string \<Rightarrow> bool" where
  "ParseFloat_ok s =
    (let s1 = (if take 1 s = ''-'' then drop 1 s else s);
         ip = takeWhile is_digit s1;
         r1 = dropWhile is_digit s1;
         has_frac = (take 1 r1 = ''.'');
         fp = (if has_frac then takeWhile is_digit (drop 1 r1) else []);
         r2 = (if has_frac then dropWhile is_digit (drop 1 r1) else r1);
         has_exp = (take 1 r2 = ''e'' \<or> take 1 r2 = ''E'');
         r3 = (if has_exp then drop 1 r2 else r2);
         exp_neg = (has_exp \<and> take 1 r3 = ''-'');
         ed = (if has_exp \<and> (take 1 r3 = ''-'' \<or> take 1 r3 = ''+'') then drop 1 r3 else r3);
         m = digits_val (ip @ fp);
         e = (if exp_neg then - digits_val ed else digits_val ed) - int (length fp)
     in if ip = [] then False
        else if length ip > 1 \<and> take 1 ip = ''0'' then False
        else if has_frac \<and> fp = [] then False
        else if has_exp \<and> ed = [] then False
        else if \<not> list_all is_digit ed then False
        else if e \<ge> 0 then m * 10 ^ nat e < 2 ^ 1024 - 2 ^ 970
        else m < (2 ^ 1024 - 2 ^ 970) * 10 ^ nat (- e))"

subsection \<open>Member names\<close>

text \<open>
  A member of a JSON object goes to the struct field whose name (its \<^verbatim>\<open>json\<close> tag) it
  matches, exactly or else up to case; a member that matches no field is skipped. Matching
  up to case compares the folded names: ASCII letters in upper case, and the two
  letters outside ASCII that fold to ASCII ones (U+017F to S, U+212A to K, in UTF-8).
  Within each struct of \<^verbatim>\<open>InspectData\<close> the folded field names differ, so the folded
  name alone decides the field. Any other byte outside ASCII is left as it is: it matches
  no field name here.
\<close>

definition upper :: "char \<Rightarrow> char" where
  "upper c = (case map_of (zip ''abcdefghijklmnopqrstuvwxyz'' ''ABCDEFGHIJKLMNOPQRSTUVWXYZ'') c of
                None \<Rightarrow> c | Some u \<Rightarrow> u)"

fun foldName :: "string \<Rightarrow> string" where
  "foldName [] = []"
| "foldName (c # cs) =
     (if c = CHR 0xC5 \<and> take 1 cs = [CHR 0xBF] then CHR ''S'' # foldName (drop 1 cs)
      else if c = CHR 0xE2 \<and> take 2 cs = [CHR 0x84, CHR 0xAA]
        then CHR ''K'' # foldName (drop 2 cs)
      else upper c # foldName cs)"

subsection \<open>Storing a JSON value into a Go value\<close>

text \<open>
  Every decoder takes the JSON value and, where Go keeps it, the current contents of the
  destination, and returns the new contents; \<open>None\<close> is an
  \<^verbatim>\<open>UnmarshalTypeError\<close> (the JSON value is not appropriate for the Go type).
  \<^verbatim>\<open>Unmarshal\<close> goes on after such an error and reports it at the end;
  \<^verbatim>\<open>ParseInspectJSON\<close> then drops whatever was decoded, so the model stops at the error.
  The rules are those of \<^verbatim>\<open>encoding/json\<close>: \<^verbatim>\<open>null\<close> sets a slice, map or
  interface to nil and leaves anything else as it is; an array is stored into a slice
  element by element; an object adds its members to a map (a new one when the map is nil)
  and sets the fields of a struct member by member.
\<close>

definition dec_string :: "json \<Rightarrow> string \<Rightarrow> string option" where
  "dec_string j cur = (case j of JString s \<Rightarrow> Some s | JNull \<Rightarrow> Some cur | _ \<Rightarrow> None)"

definition dec_bool :: "json \<Rightarrow> bool \<Rightarrow> bool option" where
  "dec_bool j cur = (case j of JBool b \<Rightarrow> Some b | JNull \<Rightarrow> Some cur | _ \<Rightarrow> None)"

definition dec_int :: "json \<Rightarrow> int \<Rightarrow> int option" where
  "dec_int j cur = (case j of JNumber lit \<Rightarrow> ParseInt lit | JNull \<Rightarrow> Some cur | _ \<Rightarrow> None)"

text \<open>A value of type \<^verbatim>\<open>interface{}\<close> takes any JSON value whose numbers are doubles.\<close>

fun interface_ok :: "json \<Rightarrow> bool" where
  "interface_ok (JNumber lit) = ParseFloat_ok lit"
| "interface_ok (JArray js) = list_all interface_ok js"
| "interface_ok (JObject ms) = list_all (\<lambda>kv. interface_ok (snd kv)) ms"
| "interface_ok j = True"

definition dec_interface :: "json \<Rightarrow> json option" where
  "dec_interface j = (if interface_ok j then Some j else None)"

text \<open>
  An array is stored into a slice in place: element \<open>i\<close> of the array is decoded into
  element \<open>i\<close> of the backing array of the slice, with what that element holds as its
  current contents. That is the element the slice has at \<open>i\<close>; beyond the length of
  the slice it is what an earlier, longer array has left in the backing array; beyond that
  it is a new zero element. The slice is then cut to the length of the array, and what
  the backing array holds beyond that length stays there. An empty array gives a new empty
  slice and \<^verbatim>\<open>null\<close> gives nil, both without a backing array. So a document that
  names a slice member twice decodes the second array into the elements of the first.

  A slice field of the value being decoded is therefore the slice together with the
  elements that its backing array still holds beyond its length.
\<close>

datatype 'a backed = Backed (slice_of: "'a slice") (beyond: "'a list")

definition backing :: "'a backed \<Rightarrow> 'a list" where
  "backing b = elems (slice_of b) @ beyond b"

text \<open>
  The elements of an array, each decoded into the element of \<open>old\<close> at its index, or
  into \<open>zero\<close> where \<open>old\<close> has run out.
\<close>

fun dec_elems :: "(json \<Rightarrow> 'a \<Rightarrow> 'a option) \<Rightarrow> 'a \<Rightarrow> json list \<Rightarrow> 'a list \<Rightarrow> 'a list option" where
  "dec_elems f zero [] old = Some []"
| "dec_elems f zero (j # js) old =
     (case f j (case old of [] \<Rightarrow> zero | x # rest \<Rightarrow> x) of
        None \<Rightarrow> None
      | Some y \<Rightarrow>
          (case dec_elems f zero js (drop 1 old) of None \<Rightarrow> None | Some ys \<Rightarrow> Some (y # ys)))"

definition dec_slice ::
    "(json \<Rightarrow> 'a \<Rightarrow> 'a option) \<Rightarrow> 'a \<Rightarrow> json \<Rightarrow> 'a backed \<Rightarrow> 'a backed option" where
  "dec_slice f zero j cur =
    (case j of
       JArray js \<Rightarrow>
         (case dec_elems f zero js (backing cur) of
            None \<Rightarrow> None
          | Some xs \<Rightarrow>
              if js = [] then Some (Backed (Some []) [])
              else Some (Backed (Some xs) (drop (length js) (backing cur))))
     | JNull \<Rightarrow> Some (Backed None [])
     | _ \<Rightarrow> None)"

text \<open>An array stored into a slice that is nil: every element is decoded into a zero element.\<close>

definition dec_new_slice :: "(json \<Rightarrow> 'a \<Rightarrow> 'a option) \<Rightarrow> 'a \<Rightarrow> json \<Rightarrow> 'a slice option" where
  "dec_new_slice f zero j = map_option slice_of (dec_slice f zero j (Backed None []))"

text \<open>The members of an object, each stored under its name as it is written.\<close>

fun dec_entries ::
    "(json \<Rightarrow> 'v option) \<Rightarrow> (string \<times> json) list \<Rightarrow> (string \<times> 'v) list
      \<Rightarrow> (string \<times> 'v) list option" where
  "dec_entries f [] m = Some m"
| "dec_entries f (kv # ms) m =
     (case f (snd kv) of
        None \<Rightarrow> None
      | Some v \<Rightarrow> dec_entries f ms (AList.update (fst kv) v m))"

definition dec_map :: "(json \<Rightarrow> 'v option) \<Rightarrow> json \<Rightarrow> (string, 'v) gomap \<Rightarrow> (string, 'v) gomap option" where
  "dec_map f j cur =
    (case j of
       JObject ms \<Rightarrow> (case dec_entries f ms (elems cur) of None \<Rightarrow> None | Some m \<Rightarrow> Some (Some m))
     | JNull \<Rightarrow> Some None
     | _ \<Rightarrow> None)"

text \<open>The members of an object, each stored into the field \<open>setf\<close> finds for its name.\<close>

fun dec_fields ::
    "(string \<Rightarrow> json \<Rightarrow> 'a \<Rightarrow> 'a option) \<Rightarrow> (string \<times> json) list \<Rightarrow> 'a \<Rightarrow> 'a option" where
  "dec_fields setf [] a = Some a"
| "dec_fields setf (kv # ms) a =
     (case setf (fst kv) (snd kv) a of
        None \<Rightarrow> None
      | Some a' \<Rightarrow> dec_fields setf ms a')"

definition dec_struct :: "(string \<Rightarrow> json \<Rightarrow> 'a \<Rightarrow> 'a option) \<Rightarrow> json \<Rightarrow> 'a \<Rightarrow> 'a option" where
  "dec_struct setf j cur =
    (case j of JObject ms \<Rightarrow> dec_fields setf ms cur | JNull \<Rightarrow> Some cur | _ \<Rightarrow> None)"

section \<open>The inspection document (parser.go, lines 10 to 46)\<close>

text \<open>
  \<^verbatim>\<open>InspectData\<close> and its anonymous structs. Every field carries the name of its struct
  in front, since several structs have a \<^verbatim>\<open>Name\<close>.
\<close>

record Config =
  Config_Image :: string
  Config_Env :: "string backed"
  Config_Cmd :: "string backed"
  Config_Entrypoint :: "string backed"
  Config_Labels :: "(string, string) gomap"
  Config_WorkingDir :: string

record Mount =
  Mount_Type :: string
  Mount_Source :: string
  Mount_Destination :: string
  Mount_Mode :: string
  Mount_RW :: bool

record PortBinding =
  PortBinding_HostIP :: string
  PortBinding_HostPort :: string

record NetworkSettings =
  NetworkSettings_Networks :: "(string, json) gomap"
  NetworkSettings_Ports :: "(string, PortBinding slice) gomap"

record Device =
  Device_PathOnHost :: string
  Device_PathInContainer :: string
  Device_CgroupPermissions :: string

record RestartPolicy =
  RestartPolicy_Name :: string
  RestartPolicy_MaximumRetryCount :: int

record HostConfig =
  HostConfig_Devices :: "Device backed"
  HostConfig_RestartPolicy :: RestartPolicy
  HostConfig_ExtraHosts :: "string backed"

record InspectData =
  InspectData_Name :: string
  InspectData_Config :: Config
  InspectData_Mounts :: "Mount backed"
  InspectData_NetworkSettings :: NetworkSettings
  InspectData_HostConfig :: HostConfig

text \<open>The zero values, which a field has until a member of the document sets it.\<close>

definition zero_Config :: Config where
  "zero_Config = \<lparr>Config_Image = [], Config_Env = Backed None [], Config_Cmd = Backed None [],
     Config_Entrypoint = Backed None [], Config_Labels = None, Config_WorkingDir = []\<rparr>"

definition zero_Mount :: Mount where
  "zero_Mount = \<lparr>Mount_Type = [], Mount_Source = [], Mount_Destination = [], Mount_Mode = [],
     Mount_RW = False\<rparr>"

definition zero_PortBinding :: PortBinding where
  "zero_PortBinding = \<lparr>PortBinding_HostIP = [], PortBinding_HostPort = []\<rparr>"

definition zero_NetworkSettings :: NetworkSettings where
  "zero_NetworkSettings = \<lparr>NetworkSettings_Networks = None, NetworkSettings_Ports = None\<rparr>"

definition zero_Device :: Device where
  "zero_Device = \<lparr>Device_PathOnHost = [], Device_PathInContainer = [],
     Device_CgroupPermissions = []\<rparr>"

definition zero_RestartPolicy :: RestartPolicy where
  "zero_RestartPolicy = \<lparr>RestartPolicy_Name = [], RestartPolicy_MaximumRetryCount = 0\<rparr>"

definition zero_HostConfig :: HostConfig where
  "zero_HostConfig = \<lparr>HostConfig_Devices = Backed None [],
     HostConfig_RestartPolicy = zero_RestartPolicy, HostConfig_ExtraHosts = Backed None []\<rparr>"

definition zero_InspectData :: InspectData where
  "zero_InspectData = \<lparr>InspectData_Name = [], InspectData_Config = zero_Config,
     InspectData_Mounts = Backed None [], InspectData_NetworkSettings = zero_NetworkSettings,
     InspectData_HostConfig = zero_HostConfig\<rparr>"

text \<open>One member of an object stored into each struct, by the tags of lines 11 to 45.\<close>

definition set_Config :: "string \<Rightarrow> json \<Rightarrow> Config \<Rightarrow> Config option" where
  "set_Config key v c =
    (let f = foldName key in
     if f = ''IMAGE'' then map_option (\<lambda>x. c\<lparr>Config_Image := x\<rparr>) (dec_string v (Config_Image c))
     else if f = ''ENV''
       then map_option (\<lambda>x. c\<lparr>Config_Env := x\<rparr>) (dec_slice dec_string [] v (Config_Env c))
     else if f = ''CMD''
       then map_option (\<lambda>x. c\<lparr>Config_Cmd := x\<rparr>) (dec_slice dec_string [] v (Config_Cmd c))
     else if f = ''ENTRYPOINT''
       then map_option (\<lambda>x. c\<lparr>Config_Entrypoint := x\<rparr>)
              (dec_slice dec_string [] v (Config_Entrypoint c))
     else if f = ''LABELS''
       then map_option (\<lambda>x. c\<lparr>Config_Labels := x\<rparr>)
              (dec_map (\<lambda>j. dec_string j []) v (Config_Labels c))
     else if f = ''WORKINGDIR''
       then map_option (\<lambda>x. c\<lparr>Config_WorkingDir := x\<rparr>) (dec_string v (Config_WorkingDir c))
     else Some c)"

definition set_Mount :: "string \<Rightarrow> json \<Rightarrow> Mount \<Rightarrow> Mount option" where
  "set_Mount key v m =
    (let f = foldName key in
     if f = ''TYPE'' then map_option (\<lambda>x. m\<lparr>Mount_Type := x\<rparr>) (dec_string v (Mount_Type m))
     else if f = ''SOURCE''
       then map_option (\<lambda>x. m\<lparr>Mount_Source := x\<rparr>) (dec_string v (Mount_Source m))
     else if f = ''DESTINATION''
       then map_option (\<lambda>x. m\<lparr>Mount_Destination := x\<rparr>) (dec_string v (Mount_Destination m))
     else if f = ''MODE'' then map_option (\<lambda>x. m\<lparr>Mount_Mode := x\<rparr>) (dec_string v (Mount_Mode m))
     else if f = ''RW'' then map_option (\<lambda>x. m\<lparr>Mount_RW := x\<rparr>) (dec_bool v (Mount_RW m))
     else Some m)"

definition set_PortBinding :: "string \<Rightarrow> json \<Rightarrow> PortBinding \<Rightarrow> PortBinding option" where
  "set_PortBinding key v b =
    (let f = foldName key in
     if f = ''HOSTIP''
       then map_option (\<lambda>x. b\<lparr>PortBinding_HostIP := x\<rparr>) (dec_string v (PortBinding_HostIP b))
     else if f = ''HOSTPORT''
       then map_option (\<lambda>x. b\<lparr>PortBinding_HostPort := x\<rparr>) (dec_string v (PortBinding_HostPort b))
     else Some b)"

definition set_NetworkSettings ::
    "string \<Rightarrow> json \<Rightarrow> NetworkSettings \<Rightarrow> NetworkSettings option" where
  "set_NetworkSettings key v n =
    (let f = foldName key in
     if f = ''NETWORKS''
       then map_option (\<lambda>x. n\<lparr>NetworkSettings_Networks := x\<rparr>)
              (dec_map dec_interface v (NetworkSettings_Networks n))
     else if f = ''PORTS''
       then map_option (\<lambda>x. n\<lparr>NetworkSettings_Ports := x\<rparr>)
              (dec_map (dec_new_slice (dec_struct set_PortBinding) zero_PortBinding) v
                 (NetworkSettings_Ports n))
     else Some n)"

definition set_Device :: "string \<Rightarrow> json \<Rightarrow> Device \<Rightarrow> Device option" where
  "set_Device key v d =
    (let f = foldName key in
     if f = ''PATHONHOST''
       then map_option (\<lambda>x. d\<lparr>Device_PathOnHost := x\<rparr>) (dec_string v (Device_PathOnHost d))
     else if f = ''PATHINCONTAINER''
       then map_option (\<lambda>x. d\<lparr>Device_PathInContainer := x\<rparr>)
              (dec_string v (Device_PathInContainer d))
     else if f = ''CGROUPPERMISSIONS''
       then map_option (\<lambda>x. d\<lparr>Device_CgroupPermissions := x\<rparr>)
              (dec_string v (Device_CgroupPermissions d))
     else Some d)"

definition set_RestartPolicy :: "string \<Rightarrow> json \<Rightarrow> RestartPolicy \<Rightarrow> RestartPolicy option" where
  "set_RestartPolicy key v p =
    (let f = foldName key in
     if f = ''NAME''
       then map_option (\<lambda>x. p\<lparr>RestartPolicy_Name := x\<rparr>) (dec_string v (RestartPolicy_Name p))
     else if f = ''MAXIMUMRETRYCOUNT''
       then map_option (\<lambda>x. p\<lparr>RestartPolicy_MaximumRetryCount := x\<rparr>)
              (dec_int v (RestartPolicy_MaximumRetryCount p))
     else Some p)"

definition set_HostConfig :: "string \<Rightarrow> json \<Rightarrow> HostConfig \<Rightarrow> HostConfig option" where
  "set_HostConfig key v h =
    (let f = foldName key in
     if f = ''DEVICES''
       then map_option (\<lambda>x. h\<lparr>HostConfig_Devices := x\<rparr>)
              (dec_slice (dec_struct set_Device) zero_Device v (HostConfig_Devices h))
     else if f = ''RESTARTPOLICY''
       then map_option (\<lambda>x. h\<lparr>HostConfig_RestartPolicy := x\<rparr>)
              (dec_struct set_RestartPolicy v (HostConfig_RestartPolicy h))
     else if f = ''EXTRAHOSTS''
       then map_option (\<lambda>x. h\<lparr>HostConfig_ExtraHosts := x\<rparr>)
              (dec_slice dec_string [] v (HostConfig_ExtraHosts h))
     else Some h)"

definition set_InspectData :: "string \<Rightarrow> json \<Rightarrow> InspectData \<Rightarrow> InspectData option" where
  "set_InspectData key v d =
    (let f = foldName key in
     if f = ''NAME''
       then map_option (\<lambda>x. d\<lparr>InspectData_Name := x\<rparr>) (dec_string v (InspectData_Name d))
     else if f = ''CONFIG''
       then map_option (\<lambda>x. d\<lparr>InspectData_Config := x\<rparr>)
              (dec_struct set_Config v (InspectData_Config d))
     else if f = ''MOUNTS''
       then map_option (\<lambda>x. d\<lparr>InspectData_Mounts := x\<rparr>)
              (dec_slice (dec_struct set_Mount) zero_Mount v (InspectData_Mounts d))
     else if f = ''NETWORKSETTINGS''
       then map_option (\<lambda>x. d\<lparr>InspectData_NetworkSettings := x\<rparr>)
              (dec_struct set_NetworkSettings v (InspectData_NetworkSettings d))
     else if f = ''HOSTCONFIG''
       then map_option (\<lambda>x. d\<lparr>InspectData_HostConfig := x\<rparr>)
              (dec_struct set_HostConfig v (InspectData_HostConfig d))
     else Some d)"

text \<open>
  \<^verbatim>\<open>json.Unmarshal([]byte(jsonData), &inspectArray)\<close> with \<^verbatim>\<open>inspectArray\<close> a nil
  \<^verbatim>\<open>[]InspectData\<close> (lines 50 and 51): the error, or the new value of \<^verbatim>\<open>inspectArray\<close>.
\<close>

datatype unmarshal_error = SyntaxError | UnmarshalTypeError

definition Unmarshal :: "(string \<Rightarrow> json option) \<Rightarrow> string \<Rightarrow> unmarshal_error + InspectData slice" where
  "Unmarshal scan jsonData =
    (case scan jsonData of
       None \<Rightarrow> Inl SyntaxError
     | Some j \<Rightarrow>
         (case dec_new_slice (dec_struct set_InspectData) zero_InspectData j of
            None \<Rightarrow> Inl UnmarshalTypeError
          | Some inspectArray \<Rightarrow> Inr inspectArray))"

section \<open>The inspection parser (parser.go, lines 49 to 118)\<close>

text \<open>\<^verbatim>\<open>strings.TrimPrefix(s, prefix)\<close>.\<close>

definition TrimPrefix :: "string \<Rightarrow> string \<Rightarrow> string" where
  "TrimPrefix s prefix =
    (if take (length prefix) s = prefix then drop (length prefix) s else s)"

text \<open>\<^verbatim>\<open>strings.Split(s, sep)\<close> for a separator of one byte.\<close>

fun Split :: "string \<Rightarrow> char \<Rightarrow> string list" where
  "Split [] sep = [[]]"
| "Split (c # cs) sep =
     (if c = sep then [] # Split cs sep
      else (case Split cs sep of [] \<Rightarrow> [[c]] | p # ps \<Rightarrow> (c # p) # ps))"

text \<open>
  The two errors of \<^verbatim>\<open>ParseInspectJSON\<close>: \<open>MalformedJSON err\<close> is
  \<^verbatim>\<open>fmt.Errorf("failed to parse JSON: %w", err)\<close> (line 52) and \<open>EmptyResult\<close> is
  \<^verbatim>\<open>fmt.Errorf("empty inspect data")\<close> (line 56).
\<close>

datatype parse_error = MalformedJSON unmarshal_error | EmptyResult

text \<open>The body of the loop over the mounts (lines 72 to 83).\<close>

definition mount_step :: "string slice \<Rightarrow> Mount \<Rightarrow> string slice" where
  "mount_step volumes mount =
    (let volumeStr0 = [];
         volumeStr1 =
           (if Mount_Type mount = ''bind''
            then Mount_Source mount @ '':'' @ Mount_Destination mount
            else if Mount_Type mount = ''volume''
            then Mount_Source mount @ '':'' @ Mount_Destination mount
            else volumeStr0)
     in if volumeStr1 \<noteq> []
        then (let volumeStr2 = (if \<not> Mount_RW mount then volumeStr1 @ '':ro'' else volumeStr1)
              in append_slice volumes [volumeStr2])
        else volumes)"

text \<open>The body of the loop over the bindings of one container port (lines 90 to 93).\<close>

definition binding_step :: "string \<Rightarrow> string slice \<Rightarrow> PortBinding \<Rightarrow> string slice" where
  "binding_step containerPort ports binding =
    (if PortBinding_HostPort binding \<noteq> []
     then (let portStr = PortBinding_HostPort binding @ '':'' @ Split containerPort CHR ''/'' ! 0
           in append_slice ports [portStr])
     else ports)"

text \<open>The body of the loop over the port map (lines 88 to 95).\<close>

definition port_step :: "string slice \<Rightarrow> string \<times> PortBinding slice \<Rightarrow> string slice" where
  "port_step ports kv =
    (if len (snd kv) > 0 then foldl (binding_step (fst kv)) ports (elems (snd kv)) else ports)"

text \<open>The body of the loop over the devices (lines 105 and 106).\<close>

definition device_step :: "string slice \<Rightarrow> Device \<Rightarrow> string slice" where
  "device_step devices device =
    (let deviceStr = Device_PathOnHost device @ '':'' @ Device_PathInContainer device
     in append_slice devices [deviceStr])"

text \<open>
  \<^verbatim>\<open>ParseInspectJSON(jsonData string) (*ContainerSpec, error)\<close>. The result is the pair Go
  returns: the specification or nil, and the error or nil. \<open>ports_order\<close> and
  \<open>networks_order\<close> are the visiting orders of the two \<^verbatim>\<open>range\<close> statements over maps
  (lines 87 and 99). The fields that the struct literal of line 60 does not name start as
  nil slices and the empty string. Where the code copies or ranges over a slice of the
  document it takes the slice itself (\<open>slice_of\<close>): nothing reads what the backing array
  holds beyond its length.
\<close>

definition ParseInspectJSON ::
    "(string \<Rightarrow> json option) \<Rightarrow> (string \<Rightarrow> nat) \<Rightarrow> (string \<Rightarrow> nat) \<Rightarrow> string
      \<Rightarrow> ContainerSpec option \<times> parse_error option" where
  "ParseInspectJSON scan ports_order networks_order jsonData =
    (case Unmarshal scan jsonData of
       Inl err \<Rightarrow> (None, Some (MalformedJSON err))
     | Inr inspectArray \<Rightarrow>
         if len inspectArray = 0 then (None, Some EmptyResult)
         else
           (let data = elems inspectArray ! 0;
                spec0 = \<lparr>Name = TrimPrefix (InspectData_Name data) ''/'',
                         Image = Config_Image (InspectData_Config data),
                         Env = slice_of (Config_Env (InspectData_Config data)),
                         Volumes = None,
                         Ports = None,
                         Networks = None,
                         Command = slice_of (Config_Cmd (InspectData_Config data)),
                         WorkingDir = Config_WorkingDir (InspectData_Config data),
                         Labels = Config_Labels (InspectData_Config data),
                         EntryPoint = slice_of (Config_Entrypoint (InspectData_Config data)),
                         Devices = None,
                         ExtraHosts = None,
                         Restart = []\<rparr>;
                spec1 = spec0\<lparr>Volumes :=
                          foldl mount_step (Volumes spec0)
                            (elems (slice_of (InspectData_Mounts data)))\<rparr>;
                spec2 = spec1\<lparr>Ports :=
                          foldl port_step (Ports spec1)
                            (range_map ports_order
                               (NetworkSettings_Ports (InspectData_NetworkSettings data)))\<rparr>;
                spec3 = spec2\<lparr>Networks :=
                          foldl (\<lambda>networks kv. append_slice networks [fst kv]) (Networks spec2)
                            (range_map networks_order
                               (NetworkSettings_Networks (InspectData_NetworkSettings data)))\<rparr>;
                spec4 = spec3\<lparr>Devices :=
                          foldl device_step (Devices spec3)
                            (elems (slice_of (HostConfig_Devices (InspectData_HostConfig data))))\<rparr>;
                spec5 =
                  (if RestartPolicy_Name (HostConfig_RestartPolicy (InspectData_HostConfig data)) \<noteq> []
                      \<and> RestartPolicy_Name (HostConfig_RestartPolicy (InspectData_HostConfig data))
                          \<noteq> ''no''
                   then spec4\<lparr>Restart :=
                          RestartPolicy_Name (HostConfig_RestartPolicy (InspectData_HostConfig data))\<rparr>
                   else spec4);
                spec6 = spec5\<lparr>ExtraHosts :=
                          slice_of (HostConfig_ExtraHosts (InspectData_HostConfig data))\<rparr>
            in (Some spec6, None)))"

section \<open>Token sequences written out\<close>

text \<open>One flag in front of every entry of a sequence.\<close>

definition flagged :: "string \<Rightarrow> string list \<Rightarrow> string list" where
  "flagged flag xs = concat (map (\<lambda>x. [flag, x]) xs)"

definition label_tokens :: "(string \<times> string) list \<Rightarrow> string list" where
  "label_tokens kvs = concat (map (\<lambda>kv. [''-l'', fst kv @ ''='' @ snd kv]) kvs)"

text \<open>The \<^verbatim>\<open>--name\<close> pair: the overrides' name, else the specification's, else nothing.\<close>

definition name_tokens :: "ContainerSpec \<Rightarrow> RunOptions option \<Rightarrow> string list" where
  "name_tokens spec opts =
    (case opts of
       None \<Rightarrow> (if Name spec \<noteq> [] then [''--name'', Name spec] else [])
     | Some ro \<Rightarrow>
         if RunOptions_Name ro \<noteq> [] then [''--name'', RunOptions_Name ro]
         else if Name spec \<noteq> [] then [''--name'', Name spec] else [])"

text \<open>Everything between the name pair and the label pairs, and everything after them.\<close>

definition before_labels :: "ContainerSpec \<Rightarrow> string list" where
  "before_labels spec =
     flagged ''-e'' (elems (Env spec)) @ flagged ''-v'' (elems (Volumes spec)) @
     flagged ''-p'' (elems (Ports spec)) @ flagged ''--network'' (elems (Networks spec)) @
     (if WorkingDir spec \<noteq> [] then [''-w'', WorkingDir spec] else [])"

definition after_labels :: "ContainerSpec \<Rightarrow> string list" where
  "after_labels spec =
     flagged ''--device'' (elems (Devices spec)) @
     flagged ''--add-host'' (elems (ExtraHosts spec)) @
     (if Restart spec \<noteq> [] then [''--restart'', Restart spec] else []) @
     (case elems (EntryPoint spec) of [] \<Rightarrow> [] | e # rest \<Rightarrow> [''--entrypoint'', e]) @
     [Image spec] @ elems (Command spec)"

text \<open>All tokens but the name pair.\<close>

definition other_tokens :: "(string \<Rightarrow> nat) \<Rightarrow> ContainerSpec \<Rightarrow> string list" where
  "other_tokens order spec =
     before_labels spec @ label_tokens (range_map order (Labels spec)) @ after_labels spec"

text \<open>The specification of the end-to-end scenario.\<close>

definition example_spec :: ContainerSpec where
  "example_spec = \<lparr>Name = ''app'', Image = ''alpine'', Env = Some [''X=1''],
     Volumes = Some [''/a:/b''], Ports = Some [''80:80''], Networks = None,
     Command = Some [''echo'', ''hi''], WorkingDir = [], Labels = None, EntryPoint = None,
     Devices = None, ExtraHosts = None, Restart = []\<rparr>"

text \<open>The overrides of the override-name scenario.\<close>

definition dev_options :: RunOptions where
  "dev_options = \<lparr>RunOptions_Name = ''dev''\<rparr>"

text \<open>
  The specification with \<open>quote\<close> applied to every environment entry and to the value of
  every label, the two places where the textual variant uses \<^verbatim>\<open>%q\<close>.
\<close>

definition quoted_spec :: "(string \<Rightarrow> string) \<Rightarrow> ContainerSpec \<Rightarrow> ContainerSpec" where
  "quoted_spec quote spec =
     spec\<lparr>Env := map_option (map quote) (Env spec),
          Labels := map_option (map (\<lambda>kv. (fst kv, quote (snd kv)))) (Labels spec)\<rparr>"

text \<open>
  What \<^verbatim>\<open>%q\<close> writes for a string of ASCII characters, as \<^verbatim>\<open>strconv.Quote\<close> does: the
  string between double quotes, a backslash before every double quote and every backslash,
  the printable characters (0x20 to 0x7E) as they are, and the control characters as their
  escapes: a backslash and one of the letters a, b, f, n, r, t, v for 0x07, 0x08, 0x0C,
  0x0A, 0x0D, 0x09, 0x0B, and a backslash, the letter x and two hexadecimal digits for the
  others. For the bytes from 0x80 on, \<^verbatim>\<open>strconv.Quote\<close> consults the Unicode tables; they
  are not modelled, this definition leaves such a byte as it is, and it is applied to ASCII
  strings only.
\<close>

definition lowerhex :: string where
  "lowerhex = ''0123456789abcdef''"

definition escaped :: "char \<Rightarrow> string" where
  "escaped c =
     (let r = (of_char c :: nat) in
      if r = 0x22 \<or> r = 0x5C then [CHR 0x5C, c]
      else if 0x20 \<le> r \<and> r < 0x7F then [c]
      else if r = 0x07 then [CHR 0x5C, CHR ''a'']
      else if r = 0x08 then [CHR 0x5C, CHR ''b'']
      else if r = 0x0C then [CHR 0x5C, CHR ''f'']
      else if r = 0x0A then [CHR 0x5C, CHR ''n'']
      else if r = 0x0D then [CHR 0x5C, CHR ''r'']
      else if r = 0x09 then [CHR 0x5C, CHR ''t'']
      else if r = 0x0B then [CHR 0x5C, CHR ''v'']
      else if r < 0x20 \<or> r = 0x7F
      then [CHR 0x5C, CHR ''x'', lowerhex ! (r div 16), lowerhex ! (r mod 16)]
      else [c])"

definition Quote_ASCII :: "string \<Rightarrow> string" where
  "Quote_ASCII s = CHR 0x22 # concat (map escaped s) @ [CHR 0x22]"

text \<open>The visiting order that follows the entries of a map as they are stored.\<close>

definition stored_order :: "string \<Rightarrow> nat" where
  "stored_order k = 0"

text \<open>The tokens of the generator, grouped as the textual variant writes them: one group a part.\<close>

definition token_groups ::
    "(string \<Rightarrow> string) \<Rightarrow> (string \<Rightarrow> nat) \<Rightarrow> ContainerSpec \<Rightarrow> RunOptions option
      \<Rightarrow> string list list" where
  "token_groups quote order spec opts =
     (if name_tokens spec opts = [] then [] else [name_tokens spec opts]) @
     map (\<lambda>env. [''-e'', quote env]) (elems (Env spec)) @
     map (\<lambda>vol. [''-v'', vol]) (elems (Volumes spec)) @
     map (\<lambda>port. [''-p'', port]) (elems (Ports spec)) @
     map (\<lambda>network. [''--network'', network]) (elems (Networks spec)) @
     (if WorkingDir spec = [] then [] else [[''-w'', WorkingDir spec]]) @
     map (\<lambda>kv. [''-l'', fst kv @ ''='' @ quote (snd kv)]) (range_map order (Labels spec)) @
     map (\<lambda>device. [''--device'', device]) (elems (Devices spec)) @
     map (\<lambda>host. [''--add-host'', host]) (elems (ExtraHosts spec)) @
     (if Restart spec = [] then [] else [[''--restart'', Restart spec]]) @
     (case elems (EntryPoint spec) of [] \<Rightarrow> [] | e # rest \<Rightarrow> [[''--entrypoint'', e]]) @
     [[Image spec]] @
     (if elems (Command spec) = [] then [] else [elems (Command spec)])"

section \<open>The parser's translations written out\<close>

text \<open>A scanner that reads every text as one given document.\<close>

definition scan_as :: "json \<Rightarrow> string \<Rightarrow> json option" where
  "scan_as doc text = Some doc"

text \<open>The mounts that become volumes, and the volume entry of one of them.\<close>

definition bind_or_volume :: "Mount \<Rightarrow> bool" where
  "bind_or_volume m = (Mount_Type m = ''bind'' \<or> Mount_Type m = ''volume'')"

definition volume_entry :: "Mount \<Rightarrow> string" where
  "volume_entry m =
     Mount_Source m @ '':'' @ Mount_Destination m @ (if Mount_RW m then [] else '':ro'')"

text \<open>
  The port entries of one container port: one for each binding with a host port, the
  container side being the key up to its first \<^verbatim>\<open>/\<close>.
\<close>

definition port_entries :: "string \<times> PortBinding slice \<Rightarrow> string list" where
  "port_entries kv =
     map (\<lambda>b. PortBinding_HostPort b @ '':'' @ takeWhile (\<lambda>c. c \<noteq> CHR ''/'') (fst kv))
       (filter (\<lambda>b. PortBinding_HostPort b \<noteq> []) (elems (snd kv)))"

text \<open>An inspection document with one container, and the members of its object.\<close>

definition container_doc :: "(string \<times> json) list \<Rightarrow> json" where
  "container_doc members =
     JArray [JObject ([(''Name'', JString ''/app''),
                       (''Config'', JObject [(''Image'', JString ''alpine'')])] @ members)]"

definition mount_member :: "string \<Rightarrow> string \<Rightarrow> string \<Rightarrow> bool \<Rightarrow> string \<times> json" where
  "mount_member type source destination rw =
     (''Mounts'', JArray [JObject [(''Type'', JString type), (''Source'', JString source),
                                   (''Destination'', JString destination), (''RW'', JBool rw)]])"

definition ports_member :: "(string \<times> json) list \<Rightarrow> string \<times> json" where
  "ports_member ports = (''NetworkSettings'', JObject [(''Ports'', JObject ports)])"

definition binding :: "string \<Rightarrow> json" where
  "binding hostPort = JObject [(''HostIp'', JString ''0.0.0.0''), (''HostPort'', JString hostPort)]"

definition restart_member :: "string \<Rightarrow> string \<times> json" where
  "restart_member name =
     (''HostConfig'', JObject [(''RestartPolicy'',
         JObject [(''Name'', JString name), (''MaximumRetryCount'', JNumber ''0'')])])"

text \<open>
  A document as the runtime's inspect command prints it for one container: three mounts
  (a read-only bind mount, a volume, a tmpfs), three container ports (one published twice,
  one exposed only, one bound to no host port), a device, a restart policy.
\<close>

definition full_doc :: json where
  "full_doc =
     JArray [JObject
       [(''Name'', JString ''/web''),
        (''Config'', JObject
           [(''Image'', JString ''nginx''), (''Env'', JArray [JString ''A=1'']),
            (''Cmd'', JArray [JString ''nginx'', JString ''-g'']),
            (''Entrypoint'', JArray [JString ''/entry.sh'']),
            (''Labels'', JObject [(''tier'', JString ''front'')]),
            (''WorkingDir'', JString ''/srv'')]),
        (''Mounts'', JArray
           [JObject [(''Type'', JString ''bind''), (''Source'', JString ''/host''),
                     (''Destination'', JString ''/container''), (''Mode'', JString ''''),
                     (''RW'', JBool False)],
            JObject [(''Type'', JString ''volume''), (''Source'', JString ''data''),
                     (''Destination'', JString ''/data''), (''RW'', JBool True)],
            JObject [(''Type'', JString ''tmpfs''), (''Source'', JString ''''),
                     (''Destination'', JString ''/tmp''), (''RW'', JBool True)]]),
        (''NetworkSettings'', JObject
           [(''Networks'', JObject [(''bridge'', JObject [])]),
            (''Ports'', JObject
               [(''8080/tcp'', JArray [binding ''9000'', binding ''9001'']),
                (''53/udp'', JNull),
                (''443/tcp'', JArray [binding ''''])])]),
        (''HostConfig'', JObject
           [(''Devices'', JArray
               [JObject [(''PathOnHost'', JString ''/dev/a''),
                         (''PathInContainer'', JString ''/dev/b''),
                         (''CgroupPermissions'', JString ''rwm'')]]),
            (''RestartPolicy'', JObject [(''Name'', JString ''always''),
                                         (''MaximumRetryCount'', JNumber ''0'')]),
            (''ExtraHosts'', JArray [JString ''h:1.2.3.4''])])]]"

text \<open>What \<open>Unmarshal\<close> makes of it.\<close>

definition full_data :: InspectData where
  "full_data =
     \<lparr>InspectData_Name = ''/web'',
      InspectData_Config =
        \<lparr>Config_Image = ''nginx'', Config_Env = Backed (Some [''A=1'']) [],
         Config_Cmd = Backed (Some [''nginx'', ''-g'']) [],
         Config_Entrypoint = Backed (Some [''/entry.sh'']) [],
         Config_Labels = Some [(''tier'', ''front'')], Config_WorkingDir = ''/srv''\<rparr>,
      InspectData_Mounts = Backed (Some
        [\<lparr>Mount_Type = ''bind'', Mount_Source = ''/host'', Mount_Destination = ''/container'',
          Mount_Mode = [], Mount_RW = False\<rparr>,
         \<lparr>Mount_Type = ''volume'', Mount_Source = ''data'', Mount_Destination = ''/data'',
          Mount_Mode = [], Mount_RW = True\<rparr>,
         \<lparr>Mount_Type = ''tmpfs'', Mount_Source = [], Mount_Destination = ''/tmp'',
          Mount_Mode = [], Mount_RW = True\<rparr>]) [],
      InspectData_NetworkSettings =
        \<lparr>NetworkSettings_Networks = Some [(''bridge'', JObject [])],
         NetworkSettings_Ports = Some
           [(''8080/tcp'', Some [\<lparr>PortBinding_HostIP = ''0.0.0.0'', PortBinding_HostPort = ''9000''\<rparr>,
                                \<lparr>PortBinding_HostIP = ''0.0.0.0'', PortBinding_HostPort = ''9001''\<rparr>]),
            (''53/udp'', None),
            (''443/tcp'', Some [\<lparr>PortBinding_HostIP = ''0.0.0.0'', PortBinding_HostPort = []\<rparr>])]\<rparr>,
      InspectData_HostConfig =
        \<lparr>HostConfig_Devices = Backed (Some
           [\<lparr>Device_PathOnHost = ''/dev/a'', Device_PathInContainer = ''/dev/b'',
             Device_CgroupPermissions = ''rwm''\<rparr>]) [],
         HostConfig_RestartPolicy =
           \<lparr>RestartPolicy_Name = ''always'', RestartPolicy_MaximumRetryCount = 0\<rparr>,
         HostConfig_ExtraHosts = Backed (Some [''h:1.2.3.4'']) []\<rparr>\<rparr>"

text \<open>
  A section is absent from an object when none of its members goes to the field of that
  name, and absent from a section of an object when it is absent from every object that is
  stored into that section.
\<close>

definition absent :: "string \<Rightarrow> (string \<times> json) list \<Rightarrow> bool" where
  "absent field ms = list_all (\<lambda>kv. foldName (fst kv) \<noteq> foldName field) ms"

definition absent_in :: "string \<Rightarrow> string \<Rightarrow> (string \<times> json) list \<Rightarrow> bool" where
  "absent_in section field ms =
     list_all (\<lambda>kv. if foldName (fst kv) = foldName section
                     then (case snd kv of JObject ms' \<Rightarrow> absent field ms' | _ \<Rightarrow> True)
                     else True) ms"

text \<open>The document of the minimal shape: one element with a name and an image.\<close>

definition minimal_doc :: "string \<Rightarrow> string \<Rightarrow> json" where
  "minimal_doc name img =
     JArray [JObject [(''Name'', JString name), (''Config'', JObject [(''Image'', JString img)])]]"

text \<open>A document with two containers that differ.\<close>

definition two_containers :: json where
  "two_containers =
     JArray [JObject [(''Name'', JString ''/web''),
                      (''Config'', JObject [(''Image'', JString ''nginx'')]),
                      restart_member ''always''],
             JObject [(''Name'', JString ''/db''),
                      (''Config'', JObject [(''Image'', JString ''redis'')])]]"

section \<open>The expected shape of the document\<close>

text \<open>
  The shape \<^verbatim>\<open>[]InspectData\<close> expects of a document, read off the declaration of lines 10
  to 46: which JSON values fit a Go type. \<^verbatim>\<open>null\<close> fits every type, a member whose name
  matches no field fits, and nothing is required to be there.
\<close>

definition fits_string :: "json \<Rightarrow> bool" where
  "fits_string j = (case j of JString s \<Rightarrow> True | JNull \<Rightarrow> True | _ \<Rightarrow> False)"

definition fits_bool :: "json \<Rightarrow> bool" where
  "fits_bool j = (case j of JBool b \<Rightarrow> True | JNull \<Rightarrow> True | _ \<Rightarrow> False)"

definition fits_int :: "json \<Rightarrow> bool" where
  "fits_int j = (case j of JNumber lit \<Rightarrow> ParseInt lit \<noteq> None | JNull \<Rightarrow> True | _ \<Rightarrow> False)"

definition fits_slice :: "(json \<Rightarrow> bool) \<Rightarrow> json \<Rightarrow> bool" where
  "fits_slice elem j = (case j of JArray js \<Rightarrow> list_all elem js | JNull \<Rightarrow> True | _ \<Rightarrow> False)"

definition fits_map :: "(json \<Rightarrow> bool) \<Rightarrow> json \<Rightarrow> bool" where
  "fits_map elem j =
     (case j of JObject ms \<Rightarrow> list_all (\<lambda>kv. elem (snd kv)) ms | JNull \<Rightarrow> True | _ \<Rightarrow> False)"

definition fits_struct :: "(string \<Rightarrow> json \<Rightarrow> bool) \<Rightarrow> json \<Rightarrow> bool" where
  "fits_struct member j =
     (case j of JObject ms \<Rightarrow> list_all (\<lambda>kv. member (fst kv) (snd kv)) ms | JNull \<Rightarrow> True
      | _ \<Rightarrow> False)"

definition fits_Config :: "string \<Rightarrow> json \<Rightarrow> bool" where
  "fits_Config key v =
    (let f = foldName key in
     if f = ''IMAGE'' then fits_string v
     else if f = ''ENV'' then fits_slice fits_string v
     else if f = ''CMD'' then fits_slice fits_string v
     else if f = ''ENTRYPOINT'' then fits_slice fits_string v
     else if f = ''LABELS'' then fits_map fits_string v
     else if f = ''WORKINGDIR'' then fits_string v
     else True)"

definition fits_Mount :: "string \<Rightarrow> json \<Rightarrow> bool" where
  "fits_Mount key v =
    (let f = foldName key in
     if f = ''TYPE'' then fits_string v
     else if f = ''SOURCE'' then fits_string v
     else if f = ''DESTINATION'' then fits_string v
     else if f = ''MODE'' then fits_string v
     else if f = ''RW'' then fits_bool v
     else True)"

definition fits_PortBinding :: "string \<Rightarrow> json \<Rightarrow> bool" where
  "fits_PortBinding key v =
    (let f = foldName key in
     if f = ''HOSTIP'' then fits_string v
     else if f = ''HOSTPORT'' then fits_string v
     else True)"

definition fits_NetworkSettings :: "string \<Rightarrow> json \<Rightarrow> bool" where
  "fits_NetworkSettings key v =
    (let f = foldName key in
     if f = ''NETWORKS'' then fits_map interface_ok v
     else if f = ''PORTS'' then fits_map (fits_slice (fits_struct fits_PortBinding)) v
     else True)"

definition fits_Device :: "string \<Rightarrow> json \<Rightarrow> bool" where
  "fits_Device key v =
    (let f = foldName key in
     if f = ''PATHONHOST'' then fits_string v
     else if f = ''PATHINCONTAINER'' then fits_string v
     else if f = ''CGROUPPERMISSIONS'' then fits_string v
     else True)"

definition fits_RestartPolicy :: "string \<Rightarrow> json \<Rightarrow> bool" where
  "fits_RestartPolicy key v =
    (let f = foldName key in
     if f = ''NAME'' then fits_string v
     else if f = ''MAXIMUMRETRYCOUNT'' then fits_int v
     else True)"

definition fits_HostConfig :: "string \<Rightarrow> json \<Rightarrow> bool" where
  "fits_HostConfig key v =
    (let f = foldName key in
     if f = ''DEVICES'' then fits_slice (fits_struct fits_Device) v
     else if f = ''RESTARTPOLICY'' then fits_struct fits_RestartPolicy v
     else if f = ''EXTRAHOSTS'' then fits_slice fits_string v
     else True)"

definition fits_InspectData :: "string \<Rightarrow> json \<Rightarrow> bool" where
  "fits_InspectData key v =
    (let f = foldName key in
     if f = ''NAME'' then fits_string v
     else if f = ''CONFIG'' then fits_struct fits_Config v
     else if f = ''MOUNTS'' then fits_slice (fits_struct fits_Mount) v
     else if f = ''NETWORKSETTINGS'' then fits_struct fits_NetworkSettings v
     else if f = ''HOSTCONFIG'' then fits_struct fits_HostConfig v
     else True)"

definition expected_shape :: "json \<Rightarrow> bool" where
  "expected_shape j = fits_slice (fits_struct fits_InspectData) j"

text \<open>The place of a key in a list of keys.\<close>

definition position :: "'k list \<Rightarrow> 'k \<Rightarrow> nat" where
  "position ks k = length (takeWhile (\<lambda>x. x \<noteq> k) ks)"

section \<open>Lemmas on slices and loops\<close>

lemma elems_simps [simp]: "elems None = []" "elems (Some xs) = xs"
  by (simp_all add: elems_def)

lemma elems_append_slice [simp]: "elems (append_slice s xs) = elems s @ xs"
  by (simp add: append_slice_def)

lemma elems_append_loop:
  "elems (foldl (\<lambda>args x. append_slice args (f x)) a xs) = elems a @ concat (map f xs)"
  by (induction xs arbitrary: a) simp_all

lemma nonempty_slice: "elems s \<noteq> [] \<Longrightarrow> s = Some (elems s)"
  by (cases s) simp_all

lemma elems_GenerateRunCommand:
  "elems (GenerateRunCommand order spec opts) =
     name_tokens spec opts @ before_labels spec @
     label_tokens (range_map order (Labels spec)) @ after_labels spec"
proof -
  have entry: "(if len (EntryPoint spec) > 0 then [''--entrypoint'', elems (EntryPoint spec) ! 0]
                else []) =
               (case elems (EntryPoint spec) of [] \<Rightarrow> [] | e # rest \<Rightarrow> [''--entrypoint'', e])"
    by (cases "elems (EntryPoint spec)") (simp_all add: len_def)
  have name: "elems (case opts of
                    None \<Rightarrow> (if Name spec \<noteq> [] then append_slice None [''--name'', Name spec]
                      else None)
                  | Some ro \<Rightarrow>
                      if RunOptions_Name ro \<noteq> []
                      then append_slice None [''--name'', RunOptions_Name ro]
                      else (if Name spec \<noteq> [] then append_slice None [''--name'', Name spec]
                      else None)) = name_tokens spec opts"
    by (cases opts) (simp_all add: name_tokens_def)
  show ?thesis
    unfolding GenerateRunCommand_def Let_def
    by (simp add: elems_append_loop name if_distrib [of elems] before_labels_def
        after_labels_def flagged_def label_tokens_def entry [symmetric] len_def
        del: append_assoc cong: if_cong)
qed

lemma range_map_None [simp]: "range_map order None = []"
  by (simp add: range_map_def)

lemma mset_range_map [simp]: "mset (range_map order m) = mset (elems m)"
  by (simp add: range_map_def)

lemma GenerateRunCommand_tokens:
  "GenerateRunCommand order spec opts =
     Some (name_tokens spec opts @ before_labels spec @
           label_tokens (range_map order (Labels spec)) @ after_labels spec)"
proof -
  have "elems (GenerateRunCommand order spec opts) \<noteq> []"
    by (simp add: elems_GenerateRunCommand after_labels_def)
  then have "GenerateRunCommand order spec opts = Some (elems (GenerateRunCommand order spec opts))"
    by (rule nonempty_slice)
  then show ?thesis
    by (simp add: elems_GenerateRunCommand)
qed

section \<open>The claims on the generator\<close>

text \<open>
  C1. The token-list generator returns exactly this sequence: the name pair, \<^verbatim>\<open>-e\<close> and
  each environment entry in order, \<^verbatim>\<open>-v\<close> and each volume, \<^verbatim>\<open>-p\<close> and each port,
  \<^verbatim>\<open>--network\<close> and each network, \<^verbatim>\<open>-w\<close> and the working directory unless it is
  empty, \<^verbatim>\<open>-l key=value\<close> once for every label (in the order the map is visited),
  \<^verbatim>\<open>--device\<close> and each device, \<^verbatim>\<open>--add-host\<close> and each extra host,
  \<^verbatim>\<open>--restart\<close> and the policy unless it is empty, \<^verbatim>\<open>--entrypoint\<close> and the first
  element of the entrypoint unless there is none, the image in every case, and the command
  tokens last. The end-to-end scenario gives the eleven tokens of the specification; an
  empty entrypoint adds nothing and the entrypoint \<^verbatim>\<open>["sh","-c","x"]\<close> adds
  \<^verbatim>\<open>--entrypoint sh\<close> only.
\<close>

theorem GenerateRunCommand_sequence:
  "GenerateRunCommand order spec opts =
     Some (name_tokens spec opts @
           flagged ''-e'' (elems (Env spec)) @
           flagged ''-v'' (elems (Volumes spec)) @
           flagged ''-p'' (elems (Ports spec)) @
           flagged ''--network'' (elems (Networks spec)) @
           (if WorkingDir spec = [] then [] else [''-w'', WorkingDir spec]) @
           label_tokens (range_map order (Labels spec)) @
           flagged ''--device'' (elems (Devices spec)) @
           flagged ''--add-host'' (elems (ExtraHosts spec)) @
           (if Restart spec = [] then [] else [''--restart'', Restart spec]) @
           (case elems (EntryPoint spec) of [] \<Rightarrow> [] | e # rest \<Rightarrow> [''--entrypoint'', e]) @
           [Image spec] @
           elems (Command spec))
   \<and> mset (range_map order (Labels spec)) = mset (elems (Labels spec))
   \<and> GenerateRunCommand order example_spec None =
       Some [''--name'', ''app'', ''-e'', ''X=1'', ''-v'', ''/a:/b'', ''-p'', ''80:80'', ''alpine'',
             ''echo'', ''hi'']
   \<and> GenerateRunCommand order (example_spec\<lparr>EntryPoint := Some []\<rparr>) None =
       GenerateRunCommand order example_spec None
   \<and> GenerateRunCommand order (example_spec\<lparr>EntryPoint := Some [''sh'', ''-c'', ''x'']\<rparr>) None =
       Some [''--name'', ''app'', ''-e'', ''X=1'', ''-v'', ''/a:/b'', ''-p'', ''80:80'',
             ''--entrypoint'', ''sh'', ''alpine'', ''echo'', ''hi'']"
  by (simp add: GenerateRunCommand_tokens before_labels_def after_labels_def example_spec_def
      name_tokens_def flagged_def label_tokens_def)

theorem GenerateRunCommand_sequence_witness:
  "GenerateRunCommand (\<lambda>k. 0)
     \<lparr>Name = ''web'', Image = ''nginx'', Env = Some [''A=1'', ''B=2''], Volumes = None,
      Ports = Some [''80:80''], Networks = Some [''bridge''], Command = None,
      WorkingDir = ''/srv'', Labels = Some [(''tier'', ''front'')], EntryPoint = Some [''sh'', ''-c''],
      Devices = Some [''/dev/a:/dev/b''], ExtraHosts = Some [''h:1.2.3.4''],
      Restart = ''always''\<rparr> None =
   Some [''--name'', ''web'', ''-e'', ''A=1'', ''-e'', ''B=2'', ''-p'', ''80:80'', ''--network'',
         ''bridge'', ''-w'', ''/srv'', ''-l'', ''tier=front'', ''--device'', ''/dev/a:/dev/b'',
         ''--add-host'', ''h:1.2.3.4'', ''--restart'', ''always'', ''--entrypoint'', ''sh'',
         ''nginx'']"
  using GenerateRunCommand_sequence [of "\<lambda>k. 0"
     "\<lparr>Name = ''web'', Image = ''nginx'', Env = Some [''A=1'', ''B=2''], Volumes = None,
      Ports = Some [''80:80''], Networks = Some [''bridge''], Command = None,
      WorkingDir = ''/srv'', Labels = Some [(''tier'', ''front'')], EntryPoint = Some [''sh'', ''-c''],
      Devices = Some [''/dev/a:/dev/b''], ExtraHosts = Some [''h:1.2.3.4''],
      Restart = ''always''\<rparr>" None]
  by (simp add: name_tokens_def flagged_def label_tokens_def range_map_def)

lemma other_tokens_Name [simp]: "other_tokens order (spec\<lparr>Name := n\<rparr>) = other_tokens order spec"
  by (simp add: other_tokens_def before_labels_def after_labels_def)

lemma GenerateRunCommand_other:
  "GenerateRunCommand order spec opts = Some (name_tokens spec opts @ other_tokens order spec)"
  by (simp add: GenerateRunCommand_tokens other_tokens_def)

text \<open>
  C2. The name pair is \<^verbatim>\<open>--name\<close> with the overrides' name when the overrides are there
  and their name is not empty; otherwise \<^verbatim>\<open>--name\<close> with the specification's name when
  that is not empty; otherwise there is no name pair. The remaining tokens depend neither
  on the overrides nor on the specification's name: with the overrides \<^verbatim>\<open>{name: "dev"}\<close>
  the result starts with \<^verbatim>\<open>--name dev\<close> and goes on with the same tokens as without
  overrides.
\<close>

theorem GenerateRunCommand_name:
  "(\<forall>ro. opts = Some ro \<and> RunOptions_Name ro \<noteq> [] \<longrightarrow>
      GenerateRunCommand order spec opts =
        Some ([''--name'', RunOptions_Name ro] @ other_tokens order spec))
   \<and> ((opts = None \<or> (\<exists>ro. opts = Some ro \<and> RunOptions_Name ro = [])) \<and> Name spec \<noteq> [] \<longrightarrow>
      GenerateRunCommand order spec opts =
        Some ([''--name'', Name spec] @ other_tokens order spec))
   \<and> ((opts = None \<or> (\<exists>ro. opts = Some ro \<and> RunOptions_Name ro = [])) \<and> Name spec = [] \<longrightarrow>
      GenerateRunCommand order spec opts = Some (other_tokens order spec))
   \<and> other_tokens order (spec\<lparr>Name := n\<rparr>) = other_tokens order spec
   \<and> GenerateRunCommand order spec (Some dev_options) =
        Some ([''--name'', ''dev''] @ other_tokens order spec)
   \<and> GenerateRunCommand order spec None =
        Some ((if Name spec = [] then [] else [''--name'', Name spec]) @ other_tokens order spec)
   \<and> GenerateRunCommand order example_spec (Some dev_options) =
        Some [''--name'', ''dev'', ''-e'', ''X=1'', ''-v'', ''/a:/b'', ''-p'', ''80:80'', ''alpine'',
              ''echo'', ''hi'']"
proof -
  have ex: "other_tokens order example_spec =
      [''-e'', ''X=1'', ''-v'', ''/a:/b'', ''-p'', ''80:80'', ''alpine'', ''echo'', ''hi'']"
    by (simp add: other_tokens_def before_labels_def after_labels_def example_spec_def
        flagged_def label_tokens_def)
  show ?thesis
    by (auto simp: GenerateRunCommand_other name_tokens_def dev_options_def ex)
qed

theorem GenerateRunCommand_name_witness:
  "GenerateRunCommand (\<lambda>k. 0) example_spec (Some \<lparr>RunOptions_Name = ''x1''\<rparr>) =
     Some [''--name'', ''x1'', ''-e'', ''X=1'', ''-v'', ''/a:/b'', ''-p'', ''80:80'', ''alpine'',
           ''echo'', ''hi'']
   \<and> GenerateRunCommand (\<lambda>k. 0) example_spec (Some \<lparr>RunOptions_Name = []\<rparr>) =
     Some [''--name'', ''app'', ''-e'', ''X=1'', ''-v'', ''/a:/b'', ''-p'', ''80:80'', ''alpine'',
           ''echo'', ''hi'']
   \<and> GenerateRunCommand (\<lambda>k. 0) (example_spec\<lparr>Name := []\<rparr>) None =
     Some [''-e'', ''X=1'', ''-v'', ''/a:/b'', ''-p'', ''80:80'', ''alpine'', ''echo'', ''hi'']"
proof -
  have ex: "other_tokens (\<lambda>k. 0) example_spec =
      [''-e'', ''X=1'', ''-v'', ''/a:/b'', ''-p'', ''80:80'', ''alpine'', ''echo'', ''hi'']"
    by (simp add: other_tokens_def before_labels_def after_labels_def example_spec_def
        flagged_def label_tokens_def)
  have n: "Name example_spec = ''app''"
    by (simp add: example_spec_def)
  show ?thesis
    using GenerateRunCommand_name [of "Some \<lparr>RunOptions_Name = ''x1''\<rparr>" "\<lambda>k. 0" example_spec]
      GenerateRunCommand_name [of "Some \<lparr>RunOptions_Name = []\<rparr>" "\<lambda>k. 0" example_spec]
      GenerateRunCommand_name [of None "\<lambda>k. 0" "example_spec\<lparr>Name := []\<rparr>" "[]"]
    by (simp add: ex n)
qed

lemma label_tokens_mset:
  "mset kvs = mset kvs' \<Longrightarrow> mset (label_tokens kvs) = mset (label_tokens kvs')"
proof -
  assume a: "mset kvs = mset kvs'"
  have "\<And>xs. mset (label_tokens xs) =
      (\<Sum>kv \<in># mset xs. mset [''-l'', fst kv @ ''='' @ snd kv])"
    by (induct_tac xs) (simp_all add: label_tokens_def)
  then show ?thesis using a by simp
qed

text \<open>
  C9. Two calls with the same specification and overrides return the same tokens before
  and after the label pairs, whatever order each call visits the label map in; the label
  pairs of both calls are the entries of the map, each once, so they are the same multiset
  of tokens; and when both calls visit the map in the same order the results are equal.
\<close>

theorem GenerateRunCommand_deterministic:
  "GenerateRunCommand order1 spec opts =
     Some (name_tokens spec opts @ before_labels spec @
           label_tokens (range_map order1 (Labels spec)) @ after_labels spec)
   \<and> GenerateRunCommand order2 spec opts =
     Some (name_tokens spec opts @ before_labels spec @
           label_tokens (range_map order2 (Labels spec)) @ after_labels spec)
   \<and> mset (range_map order1 (Labels spec)) = mset (elems (Labels spec))
   \<and> mset (range_map order2 (Labels spec)) = mset (elems (Labels spec))
   \<and> mset (label_tokens (range_map order1 (Labels spec))) =
       mset (label_tokens (range_map order2 (Labels spec)))
   \<and> (range_map order1 (Labels spec) = range_map order2 (Labels spec) \<longrightarrow>
        GenerateRunCommand order1 spec opts = GenerateRunCommand order2 spec opts)"
proof -
  have "mset (range_map order1 (Labels spec)) = mset (range_map order2 (Labels spec))"
    by simp
  then have "mset (label_tokens (range_map order1 (Labels spec))) =
      mset (label_tokens (range_map order2 (Labels spec)))"
    by (rule label_tokens_mset)
  then show ?thesis
    by (simp add: GenerateRunCommand_tokens)
qed

theorem GenerateRunCommand_deterministic_witness:
  "GenerateRunCommand (\<lambda>k. if k = ''a'' then 0 else 1)
      (example_spec\<lparr>Labels := Some [(''a'', ''1''), (''b'', ''2'')]\<rparr>) None =
     Some [''--name'', ''app'', ''-e'', ''X=1'', ''-v'', ''/a:/b'', ''-p'', ''80:80'',
           ''-l'', ''a=1'', ''-l'', ''b=2'', ''alpine'', ''echo'', ''hi'']
   \<and> GenerateRunCommand (\<lambda>k. if k = ''a'' then 1 else 0)
      (example_spec\<lparr>Labels := Some [(''a'', ''1''), (''b'', ''2'')]\<rparr>) None =
     Some [''--name'', ''app'', ''-e'', ''X=1'', ''-v'', ''/a:/b'', ''-p'', ''80:80'',
           ''-l'', ''b=2'', ''-l'', ''a=1'', ''alpine'', ''echo'', ''hi'']
   \<and> GenerateRunCommand (\<lambda>k. 0)
      (example_spec\<lparr>Labels := Some [(''a'', ''1''), (''b'', ''2'')]\<rparr>) None =
     GenerateRunCommand (\<lambda>k. if k = ''a'' then 0 else 1)
      (example_spec\<lparr>Labels := Some [(''a'', ''1''), (''b'', ''2'')]\<rparr>) None"
  using GenerateRunCommand_deterministic [of "\<lambda>k. if k = ''a'' then 0 else 1"
      "example_spec\<lparr>Labels := Some [(''a'', ''1''), (''b'', ''2'')]\<rparr>" None
      "\<lambda>k. if k = ''a'' then 1 else 0"]
    GenerateRunCommand_deterministic [of "\<lambda>k. 0"
      "example_spec\<lparr>Labels := Some [(''a'', ''1''), (''b'', ''2'')]\<rparr>" None
      "\<lambda>k. if k = ''a'' then 0 else 1"]
  by (simp add: name_tokens_def before_labels_def after_labels_def example_spec_def
      flagged_def label_tokens_def range_map_def)

lemma Join_Cons: "ys \<noteq> [] \<Longrightarrow> Join (x # ys) sep = x @ sep @ Join ys sep"
  by (cases ys) simp_all

lemma Join_append:
  "xs \<noteq> [] \<Longrightarrow> ys \<noteq> [] \<Longrightarrow> Join (xs @ ys) sep = Join xs sep @ sep @ Join ys sep"
proof (induction xs)
  case Nil
  then show ?case by simp
next
  case (Cons x xs)
  show ?case
  proof (cases "xs = []")
    case True
    then show ?thesis using Cons.prems by (simp add: Join_Cons)
  next
    case False
    then show ?thesis using Cons by (simp add: Join_Cons)
  qed
qed

lemma Join_concat:
  "list_all (\<lambda>g. g \<noteq> []) gs \<Longrightarrow> Join (map (\<lambda>g. Join g sep) gs) sep = Join (concat gs) sep"
proof (induction gs)
  case Nil
  then show ?case by simp
next
  case (Cons g gs)
  show ?case
  proof (cases "gs = []")
    case True
    then show ?thesis by simp
  next
    case False
    then have "concat gs \<noteq> []" using Cons.prems by (cases gs) auto
    then show ?thesis using Cons False by (simp add: Join_Cons Join_append)
  qed
qed

lemma sort_key_map_snd:
  "sort_key (\<lambda>kv. f (fst kv)) (map (\<lambda>kv. (fst kv, g (snd kv))) xs) =
     map (\<lambda>kv. (fst kv, g (snd kv))) (sort_key (\<lambda>kv. f (fst kv)) xs)"
proof (induction xs)
  case Nil
  then show ?case by simp
next
  case (Cons x xs)
  have ins: "\<And>ys. insort_key (\<lambda>kv. f (fst kv)) (fst x, g (snd x))
               (map (\<lambda>kv. (fst kv, g (snd kv))) ys) =
             map (\<lambda>kv. (fst kv, g (snd kv))) (insort_key (\<lambda>kv. f (fst kv)) x ys)"
    by (induct_tac ys) simp_all
  show ?case using Cons by (simp add: ins)
qed

lemma range_map_quoted:
  "range_map order (map_option (map (\<lambda>kv. (fst kv, g (snd kv)))) m) =
     map (\<lambda>kv. (fst kv, g (snd kv))) (range_map order m)"
  by (cases m) (simp_all add: range_map_def sort_key_map_snd)

lemma elems_map_option [simp]: "elems (map_option (map f) s) = map f (elems s)"
  by (cases s) simp_all

lemma name_tokens_quoted [simp]: "name_tokens (quoted_spec quote spec) opts = name_tokens spec opts"
  by (cases opts) (simp_all add: name_tokens_def quoted_spec_def)

lemma concat_token_groups:
  "concat (token_groups quote order spec opts) =
     elems (GenerateRunCommand order (quoted_spec quote spec) opts)"
proof -
  have "elems (GenerateRunCommand order (quoted_spec quote spec) opts) =
      name_tokens spec opts @ before_labels (quoted_spec quote spec) @
      label_tokens (range_map order (Labels (quoted_spec quote spec))) @
      after_labels (quoted_spec quote spec)"
    by (simp add: GenerateRunCommand_tokens)
  moreover have "before_labels (quoted_spec quote spec) =
      concat (map (\<lambda>env. [''-e'', quote env]) (elems (Env spec))) @
      flagged ''-v'' (elems (Volumes spec)) @ flagged ''-p'' (elems (Ports spec)) @
      flagged ''--network'' (elems (Networks spec)) @
      (if WorkingDir spec = [] then [] else [''-w'', WorkingDir spec])"
    by (simp add: before_labels_def quoted_spec_def flagged_def comp_def)
  moreover have "label_tokens (range_map order (Labels (quoted_spec quote spec))) =
      concat (map (\<lambda>kv. [''-l'', fst kv @ ''='' @ quote (snd kv)]) (range_map order (Labels spec)))"
    by (simp add: quoted_spec_def range_map_quoted label_tokens_def comp_def)
  moreover have "after_labels (quoted_spec quote spec) = after_labels spec"
    by (simp add: after_labels_def quoted_spec_def)
  ultimately show ?thesis
    by (simp add: token_groups_def after_labels_def flagged_def split: list.split)
qed

lemma token_groups_nonempty: "list_all (\<lambda>g. g \<noteq> []) (token_groups quote order spec opts)"
  by (auto simp: token_groups_def list_all_iff split: list.splits)

lemma parts_loop:
  "elems (foldl (\<lambda>parts x. append_slice parts [f x]) a xs) = elems a @ map f xs"
  by (induction xs arbitrary: a) simp_all

lemma GenerateRunCommandString_parts:
  "GenerateRunCommandString quote order spec opts =
     Join (''docker run'' # map (\<lambda>g. Join g '' '') (token_groups quote order spec opts)) '' ''"
proof -
  have entry: "(if len (EntryPoint spec) > 0
                then [''--entrypoint '' @ elems (EntryPoint spec) ! 0] else []) =
               map (\<lambda>g. Join g '' '')
                 (case elems (EntryPoint spec) of [] \<Rightarrow> [] | e # rest \<Rightarrow> [[''--entrypoint'', e]])"
    by (cases "elems (EntryPoint spec)") (simp_all add: len_def)
  have name: "(case opts of
                    None \<Rightarrow> (if Name spec \<noteq> []
                      then append_slice (append_slice None [''docker run'']) [''--name '' @ Name spec]
                      else append_slice None [''docker run''])
                  | Some ro \<Rightarrow>
                      if RunOptions_Name ro \<noteq> []
                      then append_slice (append_slice None [''docker run''])
                             [''--name '' @ RunOptions_Name ro]
                      else (if Name spec \<noteq> []
                        then append_slice (append_slice None [''docker run''])
                               [''--name '' @ Name spec]
                        else append_slice None [''docker run''])) =
              Some (''docker run'' # map (\<lambda>g. Join g '' '')
                 (if name_tokens spec opts = [] then [] else [name_tokens spec opts]))"
    by (cases opts) (simp_all add: name_tokens_def append_slice_def)
  have "GenerateRunCommandString quote order spec opts =
      Join ((''docker run'' # map (\<lambda>g. Join g '' '')
                 (if name_tokens spec opts = [] then [] else [name_tokens spec opts])) @
            map (\<lambda>env. ''-e '' @ quote env) (elems (Env spec)) @
            map (\<lambda>vol. ''-v '' @ vol) (elems (Volumes spec)) @
            map (\<lambda>port. ''-p '' @ port) (elems (Ports spec)) @
            map (\<lambda>network. ''--network '' @ network) (elems (Networks spec)) @
            (if WorkingDir spec = [] then [] else [''-w '' @ WorkingDir spec]) @
            map (\<lambda>kv. ''-l '' @ fst kv @ ''='' @ quote (snd kv)) (range_map order (Labels spec)) @
            map (\<lambda>device. ''--device '' @ device) (elems (Devices spec)) @
            map (\<lambda>host. ''--add-host '' @ host) (elems (ExtraHosts spec)) @
            (if Restart spec = [] then [] else [''--restart '' @ Restart spec]) @
            (if len (EntryPoint spec) > 0
                then [''--entrypoint '' @ elems (EntryPoint spec) ! 0] else []) @
            [Image spec] @
            (if elems (Command spec) = [] then [] else [Join (elems (Command spec)) '' ''])) '' ''"
    unfolding GenerateRunCommandString_def Let_def name
    by (simp add: parts_loop len_def)
  then show ?thesis
    by (simp add: token_groups_def entry comp_def)
qed

text \<open>
  C8, as amended. The textual variant returns the words \<^verbatim>\<open>docker run\<close> followed by the
  tokens of the token-list variant, in the same order, all separated by single spaces,
  where \<^verbatim>\<open>%q\<close> quoting is applied to every environment entry and to the value of every
  label and to nothing else.
\<close>

theorem GenerateRunCommandString_tokens:
  "GenerateRunCommandString quote order spec opts =
     Join (''docker'' # ''run'' #
           elems (GenerateRunCommand order (quoted_spec quote spec) opts)) '' ''"
proof -
  have "Join (map (\<lambda>g. Join g '' '') ([''docker'', ''run''] # token_groups quote order spec opts)) '' ''
      = Join (concat ([''docker'', ''run''] # token_groups quote order spec opts)) '' ''"
    by (rule Join_concat) (simp add: token_groups_nonempty)
  then show ?thesis
    by (simp add: GenerateRunCommandString_parts concat_token_groups)
qed

theorem GenerateRunCommandString_tokens_witness:
  "GenerateRunCommandString Quote_ASCII stored_order example_spec (Some dev_options) =
     ''docker run --name dev -e \"X=1\" -v /a:/b -p 80:80 alpine echo hi''"
  using GenerateRunCommandString_tokens [of Quote_ASCII stored_order example_spec "Some dev_options"]
  by (simp add: GenerateRunCommand_tokens quoted_spec_def example_spec_def dev_options_def
      name_tokens_def before_labels_def after_labels_def flagged_def label_tokens_def
      Quote_ASCII_def escaped_def)

text \<open>
  C8 as stated does not hold. For the specification of the end-to-end scenario without its
  environment entry, which has no environment entries and no labels, so that nothing is
  quoted, the textual variant still differs from the tokens of the token-list variant
  joined by spaces: it writes the words \<^verbatim>\<open>docker run\<close> first (line 89).
\<close>

theorem GenerateRunCommandString_prefix_counterexample:
  "GenerateRunCommandString Quote_ASCII stored_order (example_spec\<lparr>Env := None\<rparr>) None =
     ''docker run --name app -v /a:/b -p 80:80 alpine echo hi''
   \<and> Join (elems (GenerateRunCommand stored_order (example_spec\<lparr>Env := None\<rparr>) None)) '' '' =
     ''--name app -v /a:/b -p 80:80 alpine echo hi''
   \<and> GenerateRunCommandString Quote_ASCII stored_order (example_spec\<lparr>Env := None\<rparr>) None \<noteq>
     Join (elems (GenerateRunCommand stored_order (example_spec\<lparr>Env := None\<rparr>) None)) '' ''"
proof -
  have a: "GenerateRunCommandString Quote_ASCII stored_order (example_spec\<lparr>Env := None\<rparr>) None =
     ''docker run --name app -v /a:/b -p 80:80 alpine echo hi''"
    by (simp add: GenerateRunCommandString_parts token_groups_def example_spec_def
        name_tokens_def)
  have b: "Join (elems (GenerateRunCommand stored_order (example_spec\<lparr>Env := None\<rparr>) None)) '' '' =
     ''--name app -v /a:/b -p 80:80 alpine echo hi''"
    by (simp add: GenerateRunCommand_tokens example_spec_def
        name_tokens_def before_labels_def after_labels_def flagged_def label_tokens_def)
  show ?thesis
    unfolding a b by simp
qed

section \<open>Lemmas on the parser\<close>

lemma Split_nonempty: "Split s sep \<noteq> []"
  by (induction s) (simp_all split: list.split)

lemma Split_first: "Split s sep ! 0 = takeWhile (\<lambda>c. c \<noteq> sep) s"
proof (induction s)
  case Nil
  then show ?case by simp
next
  case (Cons c s)
  then show ?case
    using Split_nonempty [of s sep] by (cases "Split s sep") auto
qed

lemma mount_step_eq:
  "mount_step volumes mount =
     (if bind_or_volume mount then append_slice volumes [volume_entry mount] else volumes)"
  by (simp add: mount_step_def bind_or_volume_def volume_entry_def Let_def)

lemma mount_loop:
  "elems (foldl mount_step volumes mounts) =
     elems volumes @ map volume_entry (filter bind_or_volume mounts)"
  by (induction mounts arbitrary: volumes) (simp_all add: mount_step_eq)

lemma binding_loop:
  "elems (foldl (binding_step key) ports bindings) =
     elems ports @ port_entries (key, Some bindings)"
  by (induction bindings arbitrary: ports)
     (simp_all add: binding_step_def port_entries_def Split_first)

lemma port_step_eq: "elems (port_step ports kv) = elems ports @ port_entries kv"
proof -
  have same: "port_entries (fst kv, Some (elems (snd kv))) = port_entries kv"
    by (simp add: port_entries_def)
  show ?thesis
  proof (cases "elems (snd kv) = []")
    case True
    then show ?thesis by (simp add: port_step_def port_entries_def len_def)
  next
    case False
    then show ?thesis by (simp add: port_step_def len_def binding_loop same)
  qed
qed

lemma port_loop:
  "elems (foldl port_step ports kvs) = elems ports @ concat (map port_entries kvs)"
  by (induction kvs arbitrary: ports) (simp_all add: port_step_eq)

lemma device_loop:
  "elems (foldl device_step devices ds) =
     elems devices @ map (\<lambda>d. Device_PathOnHost d @ '':'' @ Device_PathInContainer d) ds"
  by (induction ds arbitrary: devices) (simp_all add: device_step_def)

lemma ParseInspectJSON_first:
  assumes "Unmarshal scan jsonData = Inr inspectArray" and "elems inspectArray = data # others"
  shows "ParseInspectJSON scan ports_order networks_order jsonData =
    (Some \<lparr>Name = TrimPrefix (InspectData_Name data) ''/'',
           Image = Config_Image (InspectData_Config data),
           Env = slice_of (Config_Env (InspectData_Config data)),
           Volumes = foldl mount_step None (elems (slice_of (InspectData_Mounts data))),
           Ports = foldl port_step None
                     (range_map ports_order
                        (NetworkSettings_Ports (InspectData_NetworkSettings data))),
           Networks = foldl (\<lambda>networks kv. append_slice networks [fst kv]) None
                        (range_map networks_order
                           (NetworkSettings_Networks (InspectData_NetworkSettings data))),
           Command = slice_of (Config_Cmd (InspectData_Config data)),
           WorkingDir = Config_WorkingDir (InspectData_Config data),
           Labels = Config_Labels (InspectData_Config data),
           EntryPoint = slice_of (Config_Entrypoint (InspectData_Config data)),
           Devices = foldl device_step None
                       (elems (slice_of (HostConfig_Devices (InspectData_HostConfig data)))),
           ExtraHosts = slice_of (HostConfig_ExtraHosts (InspectData_HostConfig data)),
           Restart =
             (if RestartPolicy_Name (HostConfig_RestartPolicy (InspectData_HostConfig data)) = []
              then []
              else if RestartPolicy_Name (HostConfig_RestartPolicy (InspectData_HostConfig data))
                        = ''no''
              then []
              else RestartPolicy_Name (HostConfig_RestartPolicy (InspectData_HostConfig data)))\<rparr>,
     None)"
  using assms by (simp add: ParseInspectJSON_def len_def Let_def)

lemmas decode_defs = Unmarshal_def scan_as_def container_doc_def mount_member_def ports_member_def
  binding_def restart_member_def
  dec_slice_def dec_new_slice_def backing_def dec_struct_def dec_map_def dec_string_def dec_bool_def
  dec_int_def dec_interface_def
  set_InspectData_def set_Config_def set_Mount_def set_PortBinding_def set_NetworkSettings_def
  set_Device_def set_RestartPolicy_def set_HostConfig_def
  zero_InspectData_def zero_Config_def zero_Mount_def zero_PortBinding_def
  zero_NetworkSettings_def zero_Device_def zero_RestartPolicy_def zero_HostConfig_def
  upper_def Let_def ParseInt_def is_digit_def digit_val_def digits_val_def

lemma Unmarshal_full_doc: "Unmarshal (scan_as full_doc) jsonText = Inr (Some [full_data])"
  by (simp add: full_doc_def full_data_def decode_defs)

lemma Unmarshal_container_doc_mount:
  "Unmarshal (scan_as (container_doc [mount_member type source destination rw])) jsonText =
     Inr (Some [zero_InspectData
       \<lparr>InspectData_Name := ''/app'',
        InspectData_Config := zero_Config\<lparr>Config_Image := ''alpine''\<rparr>,
        InspectData_Mounts := Backed (Some [\<lparr>Mount_Type = type, Mount_Source = source,
           Mount_Destination = destination, Mount_Mode = [], Mount_RW = rw\<rparr>]) []\<rparr>])"
  by (simp add: decode_defs)

lemma Unmarshal_container_doc_repeated:
  "Unmarshal (scan_as (container_doc [mount_member type source destination rw,
        (''Mounts'', JArray [later])])) jsonText =
     (case dec_struct set_Mount later \<lparr>Mount_Type = type, Mount_Source = source,
             Mount_Destination = destination, Mount_Mode = [], Mount_RW = rw\<rparr> of
        None \<Rightarrow> Inl UnmarshalTypeError
      | Some mount \<Rightarrow>
          Inr (Some [zero_InspectData
            \<lparr>InspectData_Name := ''/app'',
             InspectData_Config := zero_Config\<lparr>Config_Image := ''alpine''\<rparr>,
             InspectData_Mounts := Backed (Some [mount]) []\<rparr>]))"
  by (simp add: decode_defs split: option.split json.split)

lemma range_map_single [simp]: "range_map order (Some [kv]) = [kv]"
  by (simp add: range_map_def)

lemma Unmarshal_container_doc_port:
  "Unmarshal (scan_as (container_doc [ports_member [(key, JArray [binding hostPort])]])) jsonText =
     Inr (Some [zero_InspectData
       \<lparr>InspectData_Name := ''/app'',
        InspectData_Config := zero_Config\<lparr>Config_Image := ''alpine''\<rparr>,
        InspectData_NetworkSettings := zero_NetworkSettings
          \<lparr>NetworkSettings_Ports := Some [(key, Some [\<lparr>PortBinding_HostIP = ''0.0.0.0'',
             PortBinding_HostPort = hostPort\<rparr>])]\<rparr>\<rparr>])"
  by (simp add: decode_defs)

lemma Unmarshal_container_doc_restart:
  "Unmarshal (scan_as (container_doc [restart_member name])) jsonText =
     Inr (Some [zero_InspectData
       \<lparr>InspectData_Name := ''/app'',
        InspectData_Config := zero_Config\<lparr>Config_Image := ''alpine''\<rparr>,
        InspectData_HostConfig := zero_HostConfig
          \<lparr>HostConfig_RestartPolicy :=
             \<lparr>RestartPolicy_Name = name, RestartPolicy_MaximumRetryCount = 0\<rparr>\<rparr>\<rparr>])"
  by (simp add: decode_defs)

section \<open>The claims on the parser's translations\<close>

text \<open>
  C4. When the document deserializes, the volumes of the returned specification are, in
  the order of the mounts of the first element, the entry \<^verbatim>\<open>source:destination\<close> of every
  mount of type \<^verbatim>\<open>bind\<close> or \<^verbatim>\<open>volume\<close>, with \<^verbatim>\<open>:ro\<close> at its end exactly when
  the mount is not read-write, and nothing for a mount of any other type. The bind mount of
  \<^verbatim>\<open>/host\<close> on \<^verbatim>\<open>/container\<close> gives \<^verbatim>\<open>/host:/container:ro\<close> when it is read-only and
  \<^verbatim>\<open>/host:/container\<close> when it is read-write; a tmpfs mount gives no volume. The
  mounts of the first element are those that \<^verbatim>\<open>json.Unmarshal\<close> leaves there: when the
  object has a second \<^verbatim>\<open>Mounts\<close> member, its array is decoded into the mounts of the first
  one, so that after a bind mount of \<^verbatim>\<open>/a\<close> on \<^verbatim>\<open>/b\<close> a second array with the one
  element \<^verbatim>\<open>{"Source": "/c"}\<close> gives the volume \<^verbatim>\<open>/c:/b\<close>, and a second array with the
  one element \<^verbatim>\<open>null\<close> leaves the volume of the first.
\<close>

theorem ParseInspectJSON_volumes:
  assumes "Unmarshal scan jsonData = Inr inspectArray" and "elems inspectArray = data # others"
  shows "(\<exists>spec. ParseInspectJSON scan ports_order networks_order jsonData = (Some spec, None)
            \<and> elems (Volumes spec) =
                map (\<lambda>m. Mount_Source m @ '':'' @ Mount_Destination m @
                          (if Mount_RW m then [] else '':ro''))
                  (filter (\<lambda>m. Mount_Type m = ''bind'' \<or> Mount_Type m = ''volume'')
                     (elems (slice_of (InspectData_Mounts data)))))
    \<and> map_option Volumes (fst (ParseInspectJSON
          (scan_as (container_doc [mount_member ''bind'' ''/host'' ''/container'' False]))
          ports_order networks_order jsonText)) = Some (Some [''/host:/container:ro''])
    \<and> map_option Volumes (fst (ParseInspectJSON
          (scan_as (container_doc [mount_member ''bind'' ''/host'' ''/container'' True]))
          ports_order networks_order jsonText)) = Some (Some [''/host:/container''])
    \<and> map_option Volumes (fst (ParseInspectJSON
          (scan_as (container_doc [mount_member ''tmpfs'' ''/host'' ''/container'' True]))
          ports_order networks_order jsonText)) = Some None
    \<and> map_option Volumes (fst (ParseInspectJSON
          (scan_as (container_doc [mount_member ''bind'' ''/a'' ''/b'' True,
             (''Mounts'', JArray [JObject [(''Source'', JString ''/c'')]])]))
          ports_order networks_order jsonText)) = Some (Some [''/c:/b''])
    \<and> map_option Volumes (fst (ParseInspectJSON
          (scan_as (container_doc [mount_member ''bind'' ''/a'' ''/b'' False,
             (''Mounts'', JArray [JNull])]))
          ports_order networks_order jsonText)) = Some (Some [''/a:/b:ro''])"
proof -
  have "elems (foldl mount_step None (elems (slice_of (InspectData_Mounts data)))) =
      map (\<lambda>m. Mount_Source m @ '':'' @ Mount_Destination m @
                          (if Mount_RW m then [] else '':ro''))
        (filter (\<lambda>m. Mount_Type m = ''bind'' \<or> Mount_Type m = ''volume'')
           (elems (slice_of (InspectData_Mounts data))))"
    unfolding mount_loop by (simp add: volume_entry_def [abs_def] bind_or_volume_def [abs_def])
  then have general: "\<exists>spec. ParseInspectJSON scan ports_order networks_order jsonData = (Some spec, None)
            \<and> elems (Volumes spec) =
                map (\<lambda>m. Mount_Source m @ '':'' @ Mount_Destination m @
                          (if Mount_RW m then [] else '':ro''))
                  (filter (\<lambda>m. Mount_Type m = ''bind'' \<or> Mount_Type m = ''volume'')
                     (elems (slice_of (InspectData_Mounts data))))"
    by (simp add: ParseInspectJSON_first [OF assms])
  have ex: "\<And>type rw. map_option Volumes (fst (ParseInspectJSON
          (scan_as (container_doc [mount_member type ''/host'' ''/container'' rw]))
          ports_order networks_order jsonText)) =
        Some (foldl mount_step None [\<lparr>Mount_Type = type, Mount_Source = ''/host'',
           Mount_Destination = ''/container'', Mount_Mode = [], Mount_RW = rw\<rparr>])"
    by (simp add: ParseInspectJSON_first [OF Unmarshal_container_doc_mount])
  have later: "Unmarshal (scan_as (container_doc [mount_member ''bind'' ''/a'' ''/b'' True,
             (''Mounts'', JArray [JObject [(''Source'', JString ''/c'')]])])) jsonText =
      Inr (Some [zero_InspectData
            \<lparr>InspectData_Name := ''/app'',
             InspectData_Config := zero_Config\<lparr>Config_Image := ''alpine''\<rparr>,
             InspectData_Mounts := Backed (Some [\<lparr>Mount_Type = ''bind'', Mount_Source = ''/c'',
               Mount_Destination = ''/b'', Mount_Mode = [], Mount_RW = True\<rparr>]) []\<rparr>])"
    unfolding Unmarshal_container_doc_repeated
    by (simp add: dec_struct_def set_Mount_def dec_string_def upper_def Let_def)
  have null: "Unmarshal (scan_as (container_doc [mount_member ''bind'' ''/a'' ''/b'' False,
             (''Mounts'', JArray [JNull])])) jsonText =
      Inr (Some [zero_InspectData
            \<lparr>InspectData_Name := ''/app'',
             InspectData_Config := zero_Config\<lparr>Config_Image := ''alpine''\<rparr>,
             InspectData_Mounts := Backed (Some [\<lparr>Mount_Type = ''bind'', Mount_Source = ''/a'',
               Mount_Destination = ''/b'', Mount_Mode = [], Mount_RW = False\<rparr>]) []\<rparr>])"
    unfolding Unmarshal_container_doc_repeated
    by (simp add: dec_struct_def)
  have twice: "map_option Volumes (fst (ParseInspectJSON
          (scan_as (container_doc [mount_member ''bind'' ''/a'' ''/b'' True,
             (''Mounts'', JArray [JObject [(''Source'', JString ''/c'')]])]))
          ports_order networks_order jsonText)) = Some (Some [''/c:/b''])"
    "map_option Volumes (fst (ParseInspectJSON
          (scan_as (container_doc [mount_member ''bind'' ''/a'' ''/b'' False,
             (''Mounts'', JArray [JNull])]))
          ports_order networks_order jsonText)) = Some (Some [''/a:/b:ro''])"
    by (simp_all add: ParseInspectJSON_first [OF later] ParseInspectJSON_first [OF null]
        mount_step_def append_slice_def)
  show ?thesis
    using general by (simp add: ex twice mount_step_def append_slice_def)
qed

theorem ParseInspectJSON_volumes_witness:
  "\<exists>spec. ParseInspectJSON (scan_as full_doc) stored_order stored_order [] = (Some spec, None)
      \<and> elems (Volumes spec) = [''/host:/container:ro'', ''data:/data'']"
  using ParseInspectJSON_volumes [OF Unmarshal_full_doc, where data = full_data
      and others = "[]" and jsonText = "[]" and ports_order = stored_order
      and networks_order = stored_order]
  by (simp add: full_data_def)

text \<open>
  C5. When the document deserializes, the ports of the returned specification are, key by
  key in the order the port map is visited and binding by binding in their order, the
  entry \<^verbatim>\<open>hostPort:containerPort\<close> of every binding whose host port is not empty, the
  container side being the key up to its first \<^verbatim>\<open>/\<close>. A key without bindings, or
  whose bindings all have an empty host port, gives no entry; a key gives as many entries
  as it has bindings with a host port, the same entry twice if two bindings have the same
  host port. The key \<^verbatim>\<open>8080/tcp\<close> with the one binding to host port 9000 gives
  \<^verbatim>\<open>9000:8080\<close>.
\<close>

theorem ParseInspectJSON_ports:
  assumes "Unmarshal scan jsonData = Inr inspectArray" and "elems inspectArray = data # others"
  shows "(\<exists>spec. ParseInspectJSON scan ports_order networks_order jsonData = (Some spec, None)
            \<and> elems (Ports spec) =
                concat (map (\<lambda>kv.
                    map (\<lambda>b. PortBinding_HostPort b @ '':'' @
                              takeWhile (\<lambda>c. c \<noteq> CHR ''/'') (fst kv))
                      (filter (\<lambda>b. PortBinding_HostPort b \<noteq> []) (elems (snd kv))))
                  (range_map ports_order
                     (NetworkSettings_Ports (InspectData_NetworkSettings data)))))
    \<and> mset (range_map ports_order (NetworkSettings_Ports (InspectData_NetworkSettings data))) =
        mset (elems (NetworkSettings_Ports (InspectData_NetworkSettings data)))
    \<and> port_entries (key, None) = []
    \<and> port_entries (key, Some []) = []
    \<and> (list_all (\<lambda>b. PortBinding_HostPort b = []) bindings \<longrightarrow>
          port_entries (key, Some bindings) = [])
    \<and> length (port_entries (key, Some bindings)) =
        length (filter (\<lambda>b. PortBinding_HostPort b \<noteq> []) bindings)
    \<and> port_entries (key, Some [b, b]) = port_entries (key, Some [b]) @ port_entries (key, Some [b])
    \<and> map_option Ports (fst (ParseInspectJSON
          (scan_as (container_doc [ports_member [(''8080/tcp'', JArray [binding ''9000''])]]))
          ports_order networks_order jsonText)) = Some (Some [''9000:8080''])
    \<and> map_option Ports (fst (ParseInspectJSON
          (scan_as (container_doc [ports_member [(''8080/tcp'', JArray [binding ''''])]]))
          ports_order networks_order jsonText)) = Some None"
proof -
  have general: "\<exists>spec. ParseInspectJSON scan ports_order networks_order jsonData = (Some spec, None)
            \<and> elems (Ports spec) =
                concat (map (\<lambda>kv.
                    map (\<lambda>b. PortBinding_HostPort b @ '':'' @
                              takeWhile (\<lambda>c. c \<noteq> CHR ''/'') (fst kv))
                      (filter (\<lambda>b. PortBinding_HostPort b \<noteq> []) (elems (snd kv))))
                  (range_map ports_order
                     (NetworkSettings_Ports (InspectData_NetworkSettings data))))"
    by (simp add: ParseInspectJSON_first [OF assms] port_loop port_entries_def [abs_def])
  have ex: "\<And>hostPort. map_option Ports (fst (ParseInspectJSON
          (scan_as (container_doc [ports_member [(''8080/tcp'', JArray [binding hostPort])]]))
          ports_order networks_order jsonText)) =
        Some (port_step None (''8080/tcp'', Some [\<lparr>PortBinding_HostIP = ''0.0.0.0'',
             PortBinding_HostPort = hostPort\<rparr>]))"
    by (simp add: ParseInspectJSON_first [OF Unmarshal_container_doc_port])
  have empties: "list_all (\<lambda>b. PortBinding_HostPort b = []) bindings \<longrightarrow>
          port_entries (key, Some bindings) = []"
    by (simp add: port_entries_def list_all_iff filter_empty_conv)
  show ?thesis
    using general empties
    by (simp add: ex port_entries_def port_step_def binding_step_def len_def append_slice_def)
qed

theorem ParseInspectJSON_ports_witness:
  "\<exists>spec. ParseInspectJSON (scan_as full_doc) stored_order stored_order [] = (Some spec, None)
      \<and> elems (Ports spec) = [''9000:8080'', ''9001:8080'']"
proof -
  have "list_all (\<lambda>b. PortBinding_HostPort b = [])
      [\<lparr>PortBinding_HostIP = ''0.0.0.0'', PortBinding_HostPort = []\<rparr>]"
    by simp
  then show ?thesis
    using ParseInspectJSON_ports [OF Unmarshal_full_doc, where data = full_data
      and others = "[]" and jsonText = "[]" and ports_order = stored_order
      and networks_order = stored_order
      and bindings = "[\<lparr>PortBinding_HostIP = ''0.0.0.0'', PortBinding_HostPort = []\<rparr>]"]
    by (simp add: full_data_def range_map_def stored_order_def)
qed

text \<open>
  C6. When the document deserializes, the restart field of the returned specification is
  the name of the restart policy of the first element if that name is neither empty nor
  \<^verbatim>\<open>no\<close>, and empty otherwise: \<^verbatim>\<open>no\<close> gives the empty field, \<^verbatim>\<open>always\<close> gives
  \<^verbatim>\<open>always\<close>, the empty name gives the empty field.
\<close>

theorem ParseInspectJSON_restart:
  assumes "Unmarshal scan jsonData = Inr inspectArray" and "elems inspectArray = data # others"
  shows "(\<exists>spec. ParseInspectJSON scan ports_order networks_order jsonData = (Some spec, None)
            \<and> Restart spec =
                (if RestartPolicy_Name (HostConfig_RestartPolicy (InspectData_HostConfig data)) \<noteq> []
                    \<and> RestartPolicy_Name (HostConfig_RestartPolicy (InspectData_HostConfig data))
                        \<noteq> ''no''
                 then RestartPolicy_Name (HostConfig_RestartPolicy (InspectData_HostConfig data))
                 else []))
    \<and> map_option Restart (fst (ParseInspectJSON (scan_as (container_doc [restart_member ''no'']))
          ports_order networks_order jsonText)) = Some []
    \<and> map_option Restart (fst (ParseInspectJSON (scan_as (container_doc [restart_member ''always'']))
          ports_order networks_order jsonText)) = Some ''always''
    \<and> map_option Restart (fst (ParseInspectJSON (scan_as (container_doc [restart_member '''']))
          ports_order networks_order jsonText)) = Some []
    \<and> map_option Restart (fst (ParseInspectJSON (scan_as (container_doc []))
          ports_order networks_order jsonText)) = Some []"
proof -
  have general: "\<exists>spec. ParseInspectJSON scan ports_order networks_order jsonData = (Some spec, None)
            \<and> Restart spec =
                (if RestartPolicy_Name (HostConfig_RestartPolicy (InspectData_HostConfig data)) \<noteq> []
                    \<and> RestartPolicy_Name (HostConfig_RestartPolicy (InspectData_HostConfig data))
                        \<noteq> ''no''
                 then RestartPolicy_Name (HostConfig_RestartPolicy (InspectData_HostConfig data))
                 else [])"
    by (simp add: ParseInspectJSON_first [OF assms])
  have none: "Unmarshal (scan_as (container_doc [])) jsonText =
     Inr (Some [zero_InspectData
       \<lparr>InspectData_Name := ''/app'',
        InspectData_Config := zero_Config\<lparr>Config_Image := ''alpine''\<rparr>\<rparr>])"
    by (simp add: decode_defs)
  show ?thesis
    using general
    by (simp add: ParseInspectJSON_first [OF Unmarshal_container_doc_restart]
        ParseInspectJSON_first [OF none] zero_InspectData_def zero_HostConfig_def
        zero_RestartPolicy_def)
qed

theorem ParseInspectJSON_restart_witness:
  "\<exists>spec. ParseInspectJSON (scan_as full_doc) stored_order stored_order [] = (Some spec, None)
      \<and> Restart spec = ''always''"
  using ParseInspectJSON_restart [OF Unmarshal_full_doc, where data = full_data
      and others = "[]" and jsonText = "[]" and ports_order = stored_order
      and networks_order = stored_order]
  by (simp add: full_data_def)

text \<open>
  C10. A mount of type \<^verbatim>\<open>bind\<close> or \<^verbatim>\<open>volume\<close> adds exactly one entry to the volumes,
  whatever its source and destination are: the loop body appends the one entry, and the
  returned specification has as many volumes as the first element has such mounts. With
  an empty source and an empty destination the entry is \<^verbatim>\<open>:\<close> for a read-write mount
  and \<^verbatim>\<open>::ro\<close> for a read-only one; so it is when a second \<^verbatim>\<open>Mounts\<close> member of the
  object empties the source and the destination that the first one has set.
\<close>

theorem mount_step_one_entry:
  "(Mount_Type mount = ''bind'' \<or> Mount_Type mount = ''volume'' \<longrightarrow>
      mount_step volumes mount =
        Some (elems volumes @
              [Mount_Source mount @ '':'' @ Mount_Destination mount @
               (if Mount_RW mount then [] else '':ro'')]))
   \<and> ((Mount_Type mount = ''bind'' \<or> Mount_Type mount = ''volume'')
        \<and> Mount_Source mount = [] \<and> Mount_Destination mount = [] \<longrightarrow>
      mount_step volumes mount =
        Some (elems volumes @ [if Mount_RW mount then '':'' else ''::ro'']))
   \<and> (Unmarshal scan jsonData = Inr inspectArray \<and> elems inspectArray = data # others \<longrightarrow>
        (\<exists>spec. ParseInspectJSON scan ports_order networks_order jsonData = (Some spec, None)
           \<and> length (elems (Volumes spec)) =
               length (filter (\<lambda>m. Mount_Type m = ''bind'' \<or> Mount_Type m = ''volume'')
                         (elems (slice_of (InspectData_Mounts data))))))
   \<and> map_option Volumes (fst (ParseInspectJSON
          (scan_as (container_doc [mount_member ''bind'' [] [] True]))
          ports_order networks_order jsonText)) = Some (Some ['':''])
   \<and> map_option Volumes (fst (ParseInspectJSON
          (scan_as (container_doc [mount_member ''bind'' [] [] False]))
          ports_order networks_order jsonText)) = Some (Some [''::ro''])
   \<and> map_option Volumes (fst (ParseInspectJSON
          (scan_as (container_doc [mount_member ''volume'' [] [] True]))
          ports_order networks_order jsonText)) = Some (Some ['':''])
   \<and> map_option Volumes (fst (ParseInspectJSON
          (scan_as (container_doc [mount_member ''volume'' [] [] False]))
          ports_order networks_order jsonText)) = Some (Some [''::ro''])
   \<and> map_option Volumes (fst (ParseInspectJSON
          (scan_as (container_doc [mount_member ''bind'' ''/a'' ''/b'' True,
             (''Mounts'', JArray [JObject [(''Source'', JString []),
                                           (''Destination'', JString [])]])]))
          ports_order networks_order jsonText)) = Some (Some ['':''])"
proof -
  have count: "Unmarshal scan jsonData = Inr inspectArray \<and> elems inspectArray = data # others \<longrightarrow>
        (\<exists>spec. ParseInspectJSON scan ports_order networks_order jsonData = (Some spec, None)
           \<and> length (elems (Volumes spec)) =
               length (filter (\<lambda>m. Mount_Type m = ''bind'' \<or> Mount_Type m = ''volume'')
                         (elems (slice_of (InspectData_Mounts data)))))"
    by (auto simp: ParseInspectJSON_first mount_loop bind_or_volume_def [abs_def])
  have ex: "\<And>type rw. map_option Volumes (fst (ParseInspectJSON
          (scan_as (container_doc [mount_member type [] [] rw]))
          ports_order networks_order jsonText)) =
        Some (foldl mount_step None [\<lparr>Mount_Type = type, Mount_Source = [],
           Mount_Destination = [], Mount_Mode = [], Mount_RW = rw\<rparr>])"
    by (simp add: ParseInspectJSON_first [OF Unmarshal_container_doc_mount])
  have later: "Unmarshal (scan_as (container_doc [mount_member ''bind'' ''/a'' ''/b'' True,
             (''Mounts'', JArray [JObject [(''Source'', JString []),
                                           (''Destination'', JString [])]])])) jsonText =
      Inr (Some [zero_InspectData
            \<lparr>InspectData_Name := ''/app'',
             InspectData_Config := zero_Config\<lparr>Config_Image := ''alpine''\<rparr>,
             InspectData_Mounts := Backed (Some [\<lparr>Mount_Type = ''bind'', Mount_Source = [],
               Mount_Destination = [], Mount_Mode = [], Mount_RW = True\<rparr>]) []\<rparr>])"
    unfolding Unmarshal_container_doc_repeated
    by (simp add: dec_struct_def set_Mount_def dec_string_def upper_def Let_def)
  have twice: "map_option Volumes (fst (ParseInspectJSON
          (scan_as (container_doc [mount_member ''bind'' ''/a'' ''/b'' True,
             (''Mounts'', JArray [JObject [(''Source'', JString []),
                                           (''Destination'', JString [])]])]))
          ports_order networks_order jsonText)) = Some (Some ['':''])"
    by (simp add: ParseInspectJSON_first [OF later] mount_step_def append_slice_def)
  show ?thesis
    using count by (auto simp: ex twice mount_step_def append_slice_def)
qed

theorem mount_step_one_entry_witness:
  "mount_step (Some [''a:b''])
      \<lparr>Mount_Type = ''volume'', Mount_Source = [], Mount_Destination = [], Mount_Mode = [],
       Mount_RW = False\<rparr> = Some [''a:b'', ''::ro'']
   \<and> (\<exists>spec. ParseInspectJSON (scan_as full_doc) stored_order stored_order [] = (Some spec, None)
         \<and> length (elems (Volumes spec)) = Suc (Suc 0))"
  using mount_step_one_entry [where mount =
      "\<lparr>Mount_Type = ''volume'', Mount_Source = [], Mount_Destination = [], Mount_Mode = [],
        Mount_RW = False\<rparr>" and volumes = "Some [''a:b'']" and scan = "scan_as full_doc"
      and jsonData = "[]" and inspectArray = "Some [full_data]" and data = full_data
      and others = "[]" and ports_order = stored_order and networks_order = stored_order
      and jsonText = "[]"]
    Unmarshal_full_doc [of "[]"]
  by (simp add: full_data_def)

section \<open>Sections that the document does not have\<close>

lemma dec_fields_keeps:
  assumes "dec_fields setf ms a = Some a'"
    and "list_all (\<lambda>kv. \<forall>b b'. setf (fst kv) (snd kv) b = Some b' \<longrightarrow> g b' = g b) ms"
  shows "g a' = g a"
  using assms
proof (induction ms arbitrary: a)
  case Nil
  then show ?case by simp
next
  case (Cons kv ms)
  then obtain b where b: "setf (fst kv) (snd kv) a = Some b" and rest: "dec_fields setf ms b = Some a'"
    by (auto split: option.splits)
  have "g a' = g b" using Cons.IH [OF rest] Cons.prems(2) by simp
  moreover have "g b = g a" using Cons.prems(2) b by simp
  ultimately show ?case by simp
qed

lemma fold_names [simp]:
  "foldName ''Env'' = ''ENV''" "foldName ''Cmd'' = ''CMD''"
  "foldName ''Entrypoint'' = ''ENTRYPOINT''" "foldName ''Labels'' = ''LABELS''"
  "foldName ''Config'' = ''CONFIG''" "foldName ''Mounts'' = ''MOUNTS''"
  "foldName ''NetworkSettings'' = ''NETWORKSETTINGS''" "foldName ''Networks'' = ''NETWORKS''"
  "foldName ''Ports'' = ''PORTS''" "foldName ''HostConfig'' = ''HOSTCONFIG''"
  "foldName ''Devices'' = ''DEVICES''" "foldName ''ExtraHosts'' = ''EXTRAHOSTS''"
  "foldName ''Name'' = ''NAME''" "foldName ''Image'' = ''IMAGE''"
  by (simp_all add: upper_def)

lemma Config_keeps:
  assumes "dec_fields set_Config ms c = Some c'"
  shows "absent ''Env'' ms \<Longrightarrow> Config_Env c' = Config_Env c"
    and "absent ''Cmd'' ms \<Longrightarrow> Config_Cmd c' = Config_Cmd c"
    and "absent ''Entrypoint'' ms \<Longrightarrow> Config_Entrypoint c' = Config_Entrypoint c"
    and "absent ''Labels'' ms \<Longrightarrow> Config_Labels c' = Config_Labels c"
  by (rule dec_fields_keeps [OF assms],
      simp add: absent_def list_all_iff upper_def, auto simp: set_Config_def Let_def split: if_splits)+

lemma NetworkSettings_keeps:
  assumes "dec_fields set_NetworkSettings ms n = Some n'"
  shows "absent ''Networks'' ms \<Longrightarrow> NetworkSettings_Networks n' = NetworkSettings_Networks n"
    and "absent ''Ports'' ms \<Longrightarrow> NetworkSettings_Ports n' = NetworkSettings_Ports n"
  by (rule dec_fields_keeps [OF assms],
      simp add: absent_def list_all_iff upper_def, auto simp: set_NetworkSettings_def Let_def split: if_splits)+

lemma HostConfig_keeps:
  assumes "dec_fields set_HostConfig ms h = Some h'"
  shows "absent ''Devices'' ms \<Longrightarrow> HostConfig_Devices h' = HostConfig_Devices h"
    and "absent ''ExtraHosts'' ms \<Longrightarrow> HostConfig_ExtraHosts h' = HostConfig_ExtraHosts h"
  by (rule dec_fields_keeps [OF assms],
      simp add: absent_def list_all_iff upper_def, auto simp: set_HostConfig_def Let_def split: if_splits)+

lemma InspectData_keeps_Mounts:
  assumes "dec_fields set_InspectData ms d = Some d'" and "absent ''Mounts'' ms"
  shows "InspectData_Mounts d' = InspectData_Mounts d"
  by (rule dec_fields_keeps [OF assms(1)], insert assms(2),
      simp add: absent_def list_all_iff upper_def, auto simp: set_InspectData_def Let_def split: if_splits)

lemma InspectData_keeps_Config:
  assumes "dec_fields set_InspectData ms d = Some d'"
    and "absent_in ''Config'' field ms"
    and "\<And>ms' c c'. dec_fields set_Config ms' c = Some c' \<Longrightarrow> absent field ms' \<Longrightarrow> g c' = g c"
  shows "g (InspectData_Config d') = g (InspectData_Config d)"
proof (rule dec_fields_keeps [OF assms(1)])
  show "list_all (\<lambda>kv. \<forall>b b'. set_InspectData (fst kv) (snd kv) b = Some b' \<longrightarrow>
          g (InspectData_Config b') = g (InspectData_Config b)) ms"
    unfolding list_all_iff
  proof (intro ballI allI impI)
    fix kv b b'
    assume kv: "kv \<in> set ms" and s: "set_InspectData (fst kv) (snd kv) b = Some b'"
    show "g (InspectData_Config b') = g (InspectData_Config b)"
    proof (cases "foldName (fst kv) = ''CONFIG''")
      case False
      then show ?thesis using s
        by (auto simp: set_InspectData_def Let_def split: if_splits)
    next
      case True
      then obtain x where x: "dec_struct set_Config (snd kv) (InspectData_Config b) = Some x"
        and b': "b' = b\<lparr>InspectData_Config := x\<rparr>"
        using s by (auto simp: set_InspectData_def Let_def split: if_splits)
      have ok: "case snd kv of JObject ms' \<Rightarrow> absent field ms' | _ \<Rightarrow> True"
        using assms(2) kv True by (auto simp: absent_in_def list_all_iff upper_def)
      have "g x = g (InspectData_Config b)"
        using x ok assms(3) by (auto simp: dec_struct_def split: json.splits)
      then show ?thesis using b' by simp
    qed
  qed
qed

lemma InspectData_keeps_NetworkSettings:
  assumes "dec_fields set_InspectData ms d = Some d'"
    and "absent_in ''NetworkSettings'' field ms"
    and "\<And>ms' c c'. dec_fields set_NetworkSettings ms' c = Some c' \<Longrightarrow> absent field ms'
           \<Longrightarrow> g c' = g c"
  shows "g (InspectData_NetworkSettings d') = g (InspectData_NetworkSettings d)"
proof (rule dec_fields_keeps [OF assms(1)])
  show "list_all (\<lambda>kv. \<forall>b b'. set_InspectData (fst kv) (snd kv) b = Some b' \<longrightarrow>
          g (InspectData_NetworkSettings b') = g (InspectData_NetworkSettings b)) ms"
    unfolding list_all_iff
  proof (intro ballI allI impI)
    fix kv b b'
    assume kv: "kv \<in> set ms" and s: "set_InspectData (fst kv) (snd kv) b = Some b'"
    show "g (InspectData_NetworkSettings b') = g (InspectData_NetworkSettings b)"
    proof (cases "foldName (fst kv) = ''NETWORKSETTINGS''")
      case False
      then show ?thesis using s
        by (auto simp: set_InspectData_def Let_def split: if_splits)
    next
      case True
      then obtain x where
        x: "dec_struct set_NetworkSettings (snd kv) (InspectData_NetworkSettings b) = Some x"
        and b': "b' = b\<lparr>InspectData_NetworkSettings := x\<rparr>"
        using s by (auto simp: set_InspectData_def Let_def split: if_splits)
      have ok: "case snd kv of JObject ms' \<Rightarrow> absent field ms' | _ \<Rightarrow> True"
        using assms(2) kv True by (auto simp: absent_in_def list_all_iff upper_def)
      have "g x = g (InspectData_NetworkSettings b)"
        using x ok assms(3) by (auto simp: dec_struct_def split: json.splits)
      then show ?thesis using b' by simp
    qed
  qed
qed

lemma InspectData_keeps_HostConfig:
  assumes "dec_fields set_InspectData ms d = Some d'"
    and "absent_in ''HostConfig'' field ms"
    and "\<And>ms' c c'. dec_fields set_HostConfig ms' c = Some c' \<Longrightarrow> absent field ms'
           \<Longrightarrow> g c' = g c"
  shows "g (InspectData_HostConfig d') = g (InspectData_HostConfig d)"
proof (rule dec_fields_keeps [OF assms(1)])
  show "list_all (\<lambda>kv. \<forall>b b'. set_InspectData (fst kv) (snd kv) b = Some b' \<longrightarrow>
          g (InspectData_HostConfig b') = g (InspectData_HostConfig b)) ms"
    unfolding list_all_iff
  proof (intro ballI allI impI)
    fix kv b b'
    assume kv: "kv \<in> set ms" and s: "set_InspectData (fst kv) (snd kv) b = Some b'"
    show "g (InspectData_HostConfig b') = g (InspectData_HostConfig b)"
    proof (cases "foldName (fst kv) = ''HOSTCONFIG''")
      case False
      then show ?thesis using s
        by (auto simp: set_InspectData_def Let_def split: if_splits)
    next
      case True
      then obtain x where
        x: "dec_struct set_HostConfig (snd kv) (InspectData_HostConfig b) = Some x"
        and b': "b' = b\<lparr>InspectData_HostConfig := x\<rparr>"
        using s by (auto simp: set_InspectData_def Let_def split: if_splits)
      have ok: "case snd kv of JObject ms' \<Rightarrow> absent field ms' | _ \<Rightarrow> True"
        using assms(2) kv True by (auto simp: absent_in_def list_all_iff upper_def)
      have "g x = g (InspectData_HostConfig b)"
        using x ok assms(3) by (auto simp: dec_struct_def split: json.splits)
      then show ?thesis using b' by simp
    qed
  qed
qed

text \<open>What \<open>Unmarshal\<close> returns for an array whose first element is an object.\<close>

lemma Unmarshal_first_object:
  assumes "scan jsonData = Some (JArray (JObject ms # rest))"
    and "Unmarshal scan jsonData = Inr inspectArray"
  shows "\<exists>data others. elems inspectArray = data # others
           \<and> dec_fields set_InspectData ms zero_InspectData = Some data"
  using assms
  by (auto simp: Unmarshal_def dec_new_slice_def dec_slice_def backing_def dec_struct_def
      split: option.splits)

lemma ParseInspectJSON_accepts:
  assumes "ParseInspectJSON scan ports_order networks_order jsonData = (Some spec, None)"
  shows "\<exists>inspectArray. Unmarshal scan jsonData = Inr inspectArray"
  using assms by (auto simp: ParseInspectJSON_def split: sum.splits)

lemma foldl_no_step [simp]: "foldl step a [] = a"
  by simp

lemma Unmarshal_minimal_doc:
  "scan jsonData = Some (minimal_doc name img) \<Longrightarrow>
   Unmarshal scan jsonData =
     Inr (Some [zero_InspectData
       \<lparr>InspectData_Name := name, InspectData_Config := zero_Config\<lparr>Config_Image := img\<rparr>\<rparr>])"
  by (simp add: minimal_doc_def decode_defs)

lemma ParseInspectJSON_minimal_doc:
  assumes "scan jsonData = Some (minimal_doc name img)"
  shows "ParseInspectJSON scan ports_order networks_order jsonData =
     (Some \<lparr>Name = TrimPrefix name ''/'', Image = img, Env = None, Volumes = None,
            Ports = None, Networks = None, Command = None, WorkingDir = [], Labels = None,
            EntryPoint = None, Devices = None, ExtraHosts = None, Restart = []\<rparr>, None)"
  by (simp add: ParseInspectJSON_first [OF Unmarshal_minimal_doc [where scan = scan and jsonData = jsonData, OF assms]]
      zero_InspectData_def zero_Config_def zero_NetworkSettings_def zero_HostConfig_def
      zero_RestartPolicy_def)

text \<open>
  C7, as amended. For a document whose first element is an object and which the parser
  accepts, every collection field of the returned specification whose source section is
  absent from the document is a collection of length zero, namely Go's nil slice or nil
  map. A document of the minimal shape, one element with a name and an image, yields the
  specification with that image, with every collection field nil and every other string
  empty, and with the name less one leading \<^verbatim>\<open>/\<close> if it has one.
\<close>

theorem ParseInspectJSON_absent_sections:
  assumes "scan jsonData = Some (JArray (JObject ms # rest))"
    and "ParseInspectJSON scan ports_order networks_order jsonData = (Some spec, None)"
  shows "(absent_in ''Config'' ''Env'' ms \<longrightarrow> Env spec = None \<and> len (Env spec) = 0)
    \<and> (absent_in ''Config'' ''Cmd'' ms \<longrightarrow> Command spec = None \<and> len (Command spec) = 0)
    \<and> (absent_in ''Config'' ''Entrypoint'' ms \<longrightarrow>
          EntryPoint spec = None \<and> len (EntryPoint spec) = 0)
    \<and> (absent_in ''Config'' ''Labels'' ms \<longrightarrow> Labels spec = None \<and> len (Labels spec) = 0)
    \<and> (absent ''Mounts'' ms \<longrightarrow> Volumes spec = None \<and> len (Volumes spec) = 0)
    \<and> (absent_in ''NetworkSettings'' ''Ports'' ms \<longrightarrow> Ports spec = None \<and> len (Ports spec) = 0)
    \<and> (absent_in ''NetworkSettings'' ''Networks'' ms \<longrightarrow>
          Networks spec = None \<and> len (Networks spec) = 0)
    \<and> (absent_in ''HostConfig'' ''Devices'' ms \<longrightarrow>
          Devices spec = None \<and> len (Devices spec) = 0)
    \<and> (absent_in ''HostConfig'' ''ExtraHosts'' ms \<longrightarrow>
          ExtraHosts spec = None \<and> len (ExtraHosts spec) = 0)
    \<and> (scan' jsonData' = Some (minimal_doc name img) \<longrightarrow>
          ParseInspectJSON scan' ports_order networks_order jsonData' =
            (Some \<lparr>Name = TrimPrefix name ''/'', Image = img, Env = None, Volumes = None,
                   Ports = None, Networks = None, Command = None, WorkingDir = [],
                   Labels = None, EntryPoint = None, Devices = None, ExtraHosts = None,
                   Restart = []\<rparr>, None))
    \<and> TrimPrefix (CHR ''/'' # name) ''/'' = name
    \<and> (take 1 name \<noteq> ''/'' \<longrightarrow> TrimPrefix name ''/'' = name)"
proof -
  obtain inspectArray where u: "Unmarshal scan jsonData = Inr inspectArray"
    using ParseInspectJSON_accepts [OF assms(2)] by blast
  obtain data others where arr: "elems inspectArray = data # others"
    and dec: "dec_fields set_InspectData ms zero_InspectData = Some data"
    using Unmarshal_first_object [OF assms(1) u] by blast
  note spec = ParseInspectJSON_first [OF u arr, of ports_order networks_order]
  have s: "spec = the (fst (ParseInspectJSON scan ports_order networks_order jsonData))"
    using assms(2) by simp
  have env: "absent_in ''Config'' ''Env'' ms \<longrightarrow> Config_Env (InspectData_Config data) = Backed None []"
    using InspectData_keeps_Config [OF dec, of "''Env''" Config_Env] Config_keeps(1)
    by (auto simp: zero_InspectData_def zero_Config_def)
  have cmd: "absent_in ''Config'' ''Cmd'' ms \<longrightarrow> Config_Cmd (InspectData_Config data) = Backed None []"
    using InspectData_keeps_Config [OF dec, of "''Cmd''" Config_Cmd] Config_keeps(2)
    by (auto simp: zero_InspectData_def zero_Config_def)
  have entry: "absent_in ''Config'' ''Entrypoint'' ms \<longrightarrow>
      Config_Entrypoint (InspectData_Config data) = Backed None []"
    using InspectData_keeps_Config [OF dec, of "''Entrypoint''" Config_Entrypoint] Config_keeps(3)
    by (auto simp: zero_InspectData_def zero_Config_def)
  have labels: "absent_in ''Config'' ''Labels'' ms \<longrightarrow>
      Config_Labels (InspectData_Config data) = None"
    using InspectData_keeps_Config [OF dec, of "''Labels''" Config_Labels] Config_keeps(4)
    by (auto simp: zero_InspectData_def zero_Config_def)
  have mounts: "absent ''Mounts'' ms \<longrightarrow> InspectData_Mounts data = Backed None []"
    using InspectData_keeps_Mounts [OF dec] by (auto simp: zero_InspectData_def)
  have ports: "absent_in ''NetworkSettings'' ''Ports'' ms \<longrightarrow>
      NetworkSettings_Ports (InspectData_NetworkSettings data) = None"
    using InspectData_keeps_NetworkSettings [OF dec, of "''Ports''" NetworkSettings_Ports]
      NetworkSettings_keeps(2)
    by (auto simp: zero_InspectData_def zero_NetworkSettings_def)
  have networks: "absent_in ''NetworkSettings'' ''Networks'' ms \<longrightarrow>
      NetworkSettings_Networks (InspectData_NetworkSettings data) = None"
    using InspectData_keeps_NetworkSettings [OF dec, of "''Networks''" NetworkSettings_Networks]
      NetworkSettings_keeps(1)
    by (auto simp: zero_InspectData_def zero_NetworkSettings_def)
  have devices: "absent_in ''HostConfig'' ''Devices'' ms \<longrightarrow>
      HostConfig_Devices (InspectData_HostConfig data) = Backed None []"
    using InspectData_keeps_HostConfig [OF dec, of "''Devices''" HostConfig_Devices]
      HostConfig_keeps(1)
    by (auto simp: zero_InspectData_def zero_HostConfig_def)
  have hosts: "absent_in ''HostConfig'' ''ExtraHosts'' ms \<longrightarrow>
      HostConfig_ExtraHosts (InspectData_HostConfig data) = Backed None []"
    using InspectData_keeps_HostConfig [OF dec, of "''ExtraHosts''" HostConfig_ExtraHosts]
      HostConfig_keeps(2)
    by (auto simp: zero_InspectData_def zero_HostConfig_def)
  have trim: "take 1 name \<noteq> ''/'' \<longrightarrow> TrimPrefix name ''/'' = name"
    by (simp add: TrimPrefix_def)
  show ?thesis
    unfolding s spec
    using env cmd entry labels mounts ports networks devices hosts trim
    by (simp add: ParseInspectJSON_minimal_doc len_def TrimPrefix_def)
qed

theorem ParseInspectJSON_absent_sections_witness:
  "ParseInspectJSON (scan_as (container_doc [mount_member ''bind'' ''/host'' ''/container'' False]))
     stored_order stored_order [] =
     (Some \<lparr>Name = ''app'', Image = ''alpine'', Env = None,
            Volumes = Some [''/host:/container:ro''], Ports = None, Networks = None,
            Command = None, WorkingDir = [], Labels = None, EntryPoint = None, Devices = None,
            ExtraHosts = None, Restart = []\<rparr>, None)
   \<and> absent_in ''Config'' ''Env''
       [(''Name'', JString ''/app''), (''Config'', JObject [(''Image'', JString ''alpine'')]),
        mount_member ''bind'' ''/host'' ''/container'' False]
   \<and> absent_in ''HostConfig'' ''Devices''
       [(''Name'', JString ''/app''), (''Config'', JObject [(''Image'', JString ''alpine'')]),
        mount_member ''bind'' ''/host'' ''/container'' False]
   \<and> ParseInspectJSON (scan_as (minimal_doc ''/app'' ''alpine'')) stored_order stored_order [] =
     (Some \<lparr>Name = ''app'', Image = ''alpine'', Env = None, Volumes = None, Ports = None,
            Networks = None, Command = None, WorkingDir = [], Labels = None, EntryPoint = None,
            Devices = None, ExtraHosts = None, Restart = []\<rparr>, None)"
proof -
  have sc: "scan_as (container_doc [mount_member ''bind'' ''/host'' ''/container'' False]) [] =
      Some (JArray (JObject
        [(''Name'', JString ''/app''), (''Config'', JObject [(''Image'', JString ''alpine'')]),
         mount_member ''bind'' ''/host'' ''/container'' False] # []))"
    by (simp add: scan_as_def container_doc_def)
  have p: "ParseInspectJSON
      (scan_as (container_doc [mount_member ''bind'' ''/host'' ''/container'' False]))
      stored_order stored_order [] =
     (Some \<lparr>Name = ''app'', Image = ''alpine'', Env = None,
            Volumes = Some [''/host:/container:ro''], Ports = None, Networks = None,
            Command = None, WorkingDir = [], Labels = None, EntryPoint = None, Devices = None,
            ExtraHosts = None, Restart = []\<rparr>, None)"
    by (simp add: ParseInspectJSON_first [OF Unmarshal_container_doc_mount]
        zero_InspectData_def zero_Config_def zero_NetworkSettings_def zero_HostConfig_def
        zero_RestartPolicy_def mount_step_def append_slice_def TrimPrefix_def)
  have m: "scan_as (minimal_doc ''/app'' ''alpine'') [] = Some (minimal_doc ''/app'' ''alpine'')"
    by (simp add: scan_as_def)
  have a: "absent_in ''Config'' ''Env''
       [(''Name'', JString ''/app''), (''Config'', JObject [(''Image'', JString ''alpine'')]),
        mount_member ''bind'' ''/host'' ''/container'' False]"
    by (simp add: absent_in_def absent_def mount_member_def upper_def)
  have b: "absent_in ''HostConfig'' ''Devices''
       [(''Name'', JString ''/app''), (''Config'', JObject [(''Image'', JString ''alpine'')]),
        mount_member ''bind'' ''/host'' ''/container'' False]"
    by (simp add: absent_in_def absent_def mount_member_def upper_def)
  have q: "ParseInspectJSON (scan_as (minimal_doc ''/app'' ''alpine'')) stored_order stored_order [] =
     (Some \<lparr>Name = ''app'', Image = ''alpine'', Env = None, Volumes = None, Ports = None,
            Networks = None, Command = None, WorkingDir = [], Labels = None, EntryPoint = None,
            Devices = None, ExtraHosts = None, Restart = []\<rparr>, None)"
    using ParseInspectJSON_absent_sections [OF sc p,
        where scan' = "scan_as (minimal_doc ''/app'' ''alpine'')"
        and jsonData' = "[]" and name = "''/app''" and img = "''alpine''"] m
    by (simp add: TrimPrefix_def)
  show ?thesis
    using p a b q by simp
qed

text \<open>
  C7 as stated does not hold: for the document of the minimal shape the collection fields
  of the returned specification are nil, not empty collections that are not nil.
\<close>

theorem ParseInspectJSON_nil_counterexample:
  "ParseInspectJSON (scan_as (minimal_doc ''/app'' ''alpine'')) stored_order stored_order [] =
     (Some \<lparr>Name = ''app'', Image = ''alpine'', Env = None, Volumes = None, Ports = None,
            Networks = None, Command = None, WorkingDir = [], Labels = None, EntryPoint = None,
            Devices = None, ExtraHosts = None, Restart = []\<rparr>, None)
   \<and> map_option Env (fst (ParseInspectJSON (scan_as (minimal_doc ''/app'' ''alpine''))
         stored_order stored_order [])) \<noteq> Some (Some [])
   \<and> map_option Labels (fst (ParseInspectJSON (scan_as (minimal_doc ''/app'' ''alpine''))
         stored_order stored_order [])) \<noteq> Some (Some [])"
proof -
  have m: "scan_as (minimal_doc ''/app'' ''alpine'') [] = Some (minimal_doc ''/app'' ''alpine'')"
    by (simp add: scan_as_def)
  show ?thesis
    by (simp add: ParseInspectJSON_minimal_doc
        [where scan = "scan_as (minimal_doc ''/app'' ''alpine'')" and jsonData = "[]", OF m]
        TrimPrefix_def)
qed

section \<open>Decoding succeeds exactly on the expected shape\<close>

lemma dec_string_ok [simp]: "(dec_string j cur = None) = (\<not> fits_string j)"
  by (simp add: dec_string_def fits_string_def split: json.split)

lemma dec_bool_ok [simp]: "(dec_bool j cur = None) = (\<not> fits_bool j)"
  by (simp add: dec_bool_def fits_bool_def split: json.split)

lemma dec_int_ok [simp]: "(dec_int j cur = None) = (\<not> fits_int j)"
  by (simp add: dec_int_def fits_int_def split: json.split)

lemma dec_interface_ok [simp]: "(dec_interface j = None) = (\<not> interface_ok j)"
  by (simp add: dec_interface_def)

lemma dec_elems_ok:
  assumes "\<And>j d. (f j d = None) = (\<not> elem j)"
  shows "(dec_elems f zero js old = None) = (\<not> list_all elem js)"
proof (induction js arbitrary: old)
  case Nil
  then show ?case by simp
next
  case (Cons j js)
  show ?case
  proof (cases "f j (case old of [] \<Rightarrow> zero | x # rest \<Rightarrow> x)")
    case None
    then have "\<not> elem j" using assms by simp
    then show ?thesis using None by simp
  next
    case (Some y)
    then have "elem j"
      using assms [of j "case old of [] \<Rightarrow> zero | x # rest \<Rightarrow> x"] by simp
    then show ?thesis
      using Some Cons.IH [of "drop 1 old"]
      by (cases "dec_elems f zero js (drop 1 old)") simp_all
  qed
qed

lemma dec_slice_ok:
  assumes "\<And>j d. (f j d = None) = (\<not> elem j)"
  shows "(dec_slice f zero j cur = None) = (\<not> fits_slice elem j)"
proof (cases j)
  case (JArray js)
  then show ?thesis
    using dec_elems_ok [of f elem zero js "backing cur", OF assms]
    by (cases "dec_elems f zero js (backing cur)") (simp_all add: dec_slice_def fits_slice_def)
qed (simp_all add: dec_slice_def fits_slice_def)

lemma dec_new_slice_ok:
  assumes "\<And>j d. (f j d = None) = (\<not> elem j)"
  shows "(dec_new_slice f zero j = None) = (\<not> fits_slice elem j)"
  by (simp add: dec_new_slice_def dec_slice_ok [of f elem, OF assms])

lemma dec_entries_ok:
  "(dec_entries f ms m = None) = (\<not> list_all (\<lambda>kv. f (snd kv) \<noteq> None) ms)"
  by (induction ms arbitrary: m) (auto split: option.splits)

lemma dec_map_ok: "(dec_map f j cur = None) = (\<not> fits_map (\<lambda>j. f j \<noteq> None) j)"
proof (cases j)
  case (JObject ms)
  then show ?thesis
    using dec_entries_ok [of f ms "elems cur"]
    by (cases "dec_entries f ms (elems cur)")
       (simp_all add: dec_map_def fits_map_def del: not_None_eq)
qed (simp_all add: dec_map_def fits_map_def)

lemma dec_fields_ok:
  assumes "\<And>k v a. (setf k v a = None) = (\<not> member k v)"
  shows "(dec_fields setf ms a = None) = (\<not> list_all (\<lambda>kv. member (fst kv) (snd kv)) ms)"
proof (induction ms arbitrary: a)
  case Nil
  then show ?case by simp
next
  case (Cons kv ms)
  show ?case
  proof (cases "setf (fst kv) (snd kv) a")
    case None
    then have "\<not> member (fst kv) (snd kv)" using assms by simp
    then show ?thesis using None by simp
  next
    case (Some b)
    then have "member (fst kv) (snd kv)" using assms [of "fst kv" "snd kv" a] by simp
    then show ?thesis using Some Cons.IH [of b] by simp
  qed
qed

lemma dec_struct_ok:
  assumes "\<And>k v a. (setf k v a = None) = (\<not> member k v)"
  shows "(dec_struct setf j cur = None) = (\<not> fits_struct member j)"
  by (cases j) (simp_all add: dec_struct_def fits_struct_def dec_fields_ok [of setf member, OF assms])

lemma set_Config_ok: "(set_Config k v c = None) = (\<not> fits_Config k v)"
  by (simp add: set_Config_def fits_Config_def Let_def dec_map_ok
      dec_slice_ok [of dec_string fits_string, OF dec_string_ok])

lemma set_Mount_ok: "(set_Mount k v c = None) = (\<not> fits_Mount k v)"
  by (simp add: set_Mount_def fits_Mount_def Let_def)

lemma set_PortBinding_ok: "(set_PortBinding k v c = None) = (\<not> fits_PortBinding k v)"
  by (simp add: set_PortBinding_def fits_PortBinding_def Let_def)

lemma set_Device_ok: "(set_Device k v c = None) = (\<not> fits_Device k v)"
  by (simp add: set_Device_def fits_Device_def Let_def)

lemma set_RestartPolicy_ok: "(set_RestartPolicy k v c = None) = (\<not> fits_RestartPolicy k v)"
  by (simp add: set_RestartPolicy_def fits_RestartPolicy_def Let_def)

lemma set_NetworkSettings_ok:
  "(set_NetworkSettings k v c = None) = (\<not> fits_NetworkSettings k v)"
  by (simp add: set_NetworkSettings_def fits_NetworkSettings_def Let_def dec_map_ok
      dec_new_slice_ok [of "dec_struct set_PortBinding" "fits_struct fits_PortBinding",
        OF dec_struct_ok [of set_PortBinding fits_PortBinding, OF set_PortBinding_ok]])

lemma set_HostConfig_ok: "(set_HostConfig k v c = None) = (\<not> fits_HostConfig k v)"
  by (simp add: set_HostConfig_def fits_HostConfig_def Let_def
      dec_slice_ok [of dec_string fits_string, OF dec_string_ok]
      dec_slice_ok [of "dec_struct set_Device" "fits_struct fits_Device",
        OF dec_struct_ok [of set_Device fits_Device, OF set_Device_ok]]
      dec_struct_ok [of set_RestartPolicy fits_RestartPolicy, OF set_RestartPolicy_ok])

lemma set_InspectData_ok: "(set_InspectData k v c = None) = (\<not> fits_InspectData k v)"
  by (simp add: set_InspectData_def fits_InspectData_def Let_def
      dec_struct_ok [of set_Config fits_Config, OF set_Config_ok]
      dec_slice_ok [of "dec_struct set_Mount" "fits_struct fits_Mount",
        OF dec_struct_ok [of set_Mount fits_Mount, OF set_Mount_ok]]
      dec_struct_ok [of set_NetworkSettings fits_NetworkSettings, OF set_NetworkSettings_ok]
      dec_struct_ok [of set_HostConfig fits_HostConfig, OF set_HostConfig_ok])

lemma dec_array_ok:
  "(dec_new_slice (dec_struct set_InspectData) zero_InspectData j = None) =
     (\<not> expected_shape j)"
  by (simp add: expected_shape_def
      dec_new_slice_ok [of "dec_struct set_InspectData" "fits_struct fits_InspectData",
        OF dec_struct_ok [of set_InspectData fits_InspectData, OF set_InspectData_ok]])

lemma Unmarshal_errors:
  "(Unmarshal scan jsonData = Inl SyntaxError) = (scan jsonData = None)"
  "(Unmarshal scan jsonData = Inl UnmarshalTypeError) =
     (\<exists>j. scan jsonData = Some j \<and> \<not> expected_shape j)"
  by (auto simp: Unmarshal_def dec_array_ok [symmetric] split: option.splits)

lemma dec_elems_length: "dec_elems f zero js old = Some xs \<Longrightarrow> length xs = length js"
  by (induction js arbitrary: old xs) (auto split: option.splits)

lemma dec_new_slice_simps:
  "dec_new_slice f zero JNull = Some None"
  "dec_new_slice f zero (JArray js) = map_option Some (dec_elems f zero js [])"
  "dec_new_slice f zero (JBool b) = None"
  "dec_new_slice f zero (JNumber lit) = None"
  "dec_new_slice f zero (JString s) = None"
  "dec_new_slice f zero (JObject ms) = None"
  by (simp_all add: dec_new_slice_def dec_slice_def backing_def split: option.split)

lemma Unmarshal_empty:
  "(\<exists>inspectArray. Unmarshal scan jsonData = Inr inspectArray \<and> len inspectArray = 0) =
     (scan jsonData = Some JNull \<or> scan jsonData = Some (JArray []))"
proof
  assume "\<exists>inspectArray. Unmarshal scan jsonData = Inr inspectArray \<and> len inspectArray = 0"
  then obtain arr j where j: "scan jsonData = Some j"
    and d: "dec_new_slice (dec_struct set_InspectData) zero_InspectData j = Some arr"
    and l: "len arr = 0"
    by (auto simp: Unmarshal_def split: option.splits)
  show "scan jsonData = Some JNull \<or> scan jsonData = Some (JArray [])"
  proof (cases j)
    case (JArray js)
    then obtain xs where "dec_elems (dec_struct set_InspectData) zero_InspectData js [] = Some xs"
      and "arr = Some xs"
      using d by (auto simp: dec_new_slice_simps)
    then have "js = []"
      using l dec_elems_length [of _ _ js "[]" xs] by (simp add: len_def)
    then show ?thesis using j JArray by simp
  qed (use j d in \<open>auto simp: dec_new_slice_simps\<close>)
next
  assume "scan jsonData = Some JNull \<or> scan jsonData = Some (JArray [])"
  then show "\<exists>inspectArray. Unmarshal scan jsonData = Inr inspectArray \<and> len inspectArray = 0"
    by (auto simp: Unmarshal_def dec_new_slice_simps len_def)
qed

lemma Unmarshal_first:
  "(\<exists>inspectArray. Unmarshal scan jsonData = Inr inspectArray \<and> len inspectArray \<noteq> 0) =
     (\<exists>j js. scan jsonData = Some (JArray (j # js)) \<and> expected_shape (JArray (j # js)))"
proof
  assume "\<exists>inspectArray. Unmarshal scan jsonData = Inr inspectArray \<and> len inspectArray \<noteq> 0"
  then obtain arr where u: "Unmarshal scan jsonData = Inr arr" and l: "len arr \<noteq> 0"
    by blast
  then obtain j where j: "scan jsonData = Some j"
    and d: "dec_new_slice (dec_struct set_InspectData) zero_InspectData j = Some arr"
    by (auto simp: Unmarshal_def split: option.splits)
  have shape: "expected_shape j"
    using d dec_array_ok [of j] by simp
  have "j \<noteq> JNull" "j \<noteq> JArray []"
    using Unmarshal_empty [of scan jsonData] u l j by auto
  then obtain e es where "j = JArray (e # es)"
    using shape by (cases j) (auto simp: expected_shape_def fits_slice_def neq_Nil_conv)
  then show "\<exists>j js. scan jsonData = Some (JArray (j # js)) \<and> expected_shape (JArray (j # js))"
    using j shape by blast
next
  assume "\<exists>j js. scan jsonData = Some (JArray (j # js)) \<and> expected_shape (JArray (j # js))"
  then obtain j js where j: "scan jsonData = Some (JArray (j # js))"
    and shape: "expected_shape (JArray (j # js))"
    by blast
  then obtain arr where d:
    "dec_new_slice (dec_struct set_InspectData) zero_InspectData (JArray (j # js)) = Some arr"
    using dec_array_ok [of "JArray (j # js)"] by auto
  then have "len arr \<noteq> 0"
    by (auto simp: dec_new_slice_simps len_def split: option.splits)
  then show "\<exists>inspectArray. Unmarshal scan jsonData = Inr inspectArray \<and> len inspectArray \<noteq> 0"
    using j d by (auto simp: Unmarshal_def)
qed

lemma Unmarshal_Cons:
  assumes "scan jsonData = Some (JArray (j # js))" and "expected_shape (JArray (j # js))"
  shows "\<exists>data others. Unmarshal scan jsonData = Inr (Some (data # others))
           \<and> dec_struct set_InspectData j zero_InspectData = Some data"
proof -
  obtain arr where d:
    "dec_new_slice (dec_struct set_InspectData) zero_InspectData (JArray (j # js)) = Some arr"
    using assms(2) dec_array_ok [of "JArray (j # js)"] by auto
  then show ?thesis
    using assms(1) by (auto simp: Unmarshal_def dec_new_slice_simps split: option.splits)
qed

lemma ParseInspectJSON_malformed:
  "(ParseInspectJSON scan ports_order networks_order jsonData = (None, Some (MalformedJSON e))) =
     (Unmarshal scan jsonData = Inl e)"
  by (auto simp: ParseInspectJSON_def Let_def split: sum.splits)

lemma ParseInspectJSON_empty:
  "(ParseInspectJSON scan ports_order networks_order jsonData = (None, Some EmptyResult)) =
     (\<exists>inspectArray. Unmarshal scan jsonData = Inr inspectArray \<and> len inspectArray = 0)"
  by (auto simp: ParseInspectJSON_def Let_def split: sum.splits)

lemma ParseInspectJSON_spec:
  "(\<exists>spec. ParseInspectJSON scan ports_order networks_order jsonData = (Some spec, None)) =
     (\<exists>inspectArray. Unmarshal scan jsonData = Inr inspectArray \<and> len inspectArray \<noteq> 0)"
  by (auto simp: ParseInspectJSON_def Let_def split: sum.splits)

lemma ParseInspectJSON_exclusive:
  "(fst (ParseInspectJSON scan ports_order networks_order jsonData) = None) =
     (snd (ParseInspectJSON scan ports_order networks_order jsonData) \<noteq> None)"
  by (auto simp: ParseInspectJSON_def Let_def split: sum.splits)

lemma ParseInspectJSON_of_first:
  assumes "scan jsonData = Some (JArray (j # js))" and "expected_shape (JArray (j # js))"
  shows "\<exists>data. dec_struct set_InspectData j zero_InspectData = Some data
    \<and> ParseInspectJSON scan ports_order networks_order jsonData =
    (Some \<lparr>Name = TrimPrefix (InspectData_Name data) ''/'',
           Image = Config_Image (InspectData_Config data),
           Env = slice_of (Config_Env (InspectData_Config data)),
           Volumes = foldl mount_step None (elems (slice_of (InspectData_Mounts data))),
           Ports = foldl port_step None
                     (range_map ports_order
                        (NetworkSettings_Ports (InspectData_NetworkSettings data))),
           Networks = foldl (\<lambda>networks kv. append_slice networks [fst kv]) None
                        (range_map networks_order
                           (NetworkSettings_Networks (InspectData_NetworkSettings data))),
           Command = slice_of (Config_Cmd (InspectData_Config data)),
           WorkingDir = Config_WorkingDir (InspectData_Config data),
           Labels = Config_Labels (InspectData_Config data),
           EntryPoint = slice_of (Config_Entrypoint (InspectData_Config data)),
           Devices = foldl device_step None
                       (elems (slice_of (HostConfig_Devices (InspectData_HostConfig data)))),
           ExtraHosts = slice_of (HostConfig_ExtraHosts (InspectData_HostConfig data)),
           Restart =
             (if RestartPolicy_Name (HostConfig_RestartPolicy (InspectData_HostConfig data)) = []
              then []
              else if RestartPolicy_Name (HostConfig_RestartPolicy (InspectData_HostConfig data))
                        = ''no''
              then []
              else RestartPolicy_Name (HostConfig_RestartPolicy (InspectData_HostConfig data)))\<rparr>,
     None)"
proof -
  obtain data others where u: "Unmarshal scan jsonData = Inr (Some (data # others))"
    and d: "dec_struct set_InspectData j zero_InspectData = Some data"
    using Unmarshal_Cons [where scan = scan and jsonData = jsonData, OF assms] by blast
  show ?thesis
    using d ParseInspectJSON_first [OF u, of data others ports_order networks_order]
    by simp
qed

lemma ParseInspectJSON_first_only:
  assumes "scan jsonData = Some (JArray (j # js))" and "expected_shape (JArray (j # js))"
  shows "ParseInspectJSON scan ports_order networks_order jsonData =
         ParseInspectJSON (scan_as (JArray [j])) ports_order networks_order jsonData"
proof -
  obtain data others where u: "Unmarshal scan jsonData = Inr (Some (data # others))"
    and d: "dec_struct set_InspectData j zero_InspectData = Some data"
    using Unmarshal_Cons [where scan = scan and jsonData = jsonData, OF assms] by blast
  have u': "Unmarshal (scan_as (JArray [j])) jsonData = Inr (Some (data # []))"
    using d by (simp add: Unmarshal_def scan_as_def dec_new_slice_simps)
  show ?thesis
    by (simp add: ParseInspectJSON_first [OF u] ParseInspectJSON_first [OF u'])
qed

lemma expected_shape_filter:
  assumes "expected_shape (JArray (JObject ms # js))"
  shows "expected_shape (JArray (JObject (filter keep ms) # js))"
  using assms by (simp add: expected_shape_def fits_slice_def fits_struct_def list_all_iff)

lemma expected_shape_Name:
  assumes "(key, v) \<in> set ms" and "foldName key = ''NAME''" and "\<not> fits_string v"
  shows "\<not> expected_shape (JArray (JObject ms # js))"
proof -
  have "\<not> fits_InspectData key v"
    using assms(2,3) by (simp add: fits_InspectData_def)
  then have "\<not> list_all (\<lambda>kv. fits_InspectData (fst kv) (snd kv)) ms"
    using assms(1) by (auto simp: list_all_iff intro!: bexI [of _ "(key, v)"])
  then show ?thesis
    by (simp add: expected_shape_def fits_slice_def fits_struct_def)
qed

lemma Unmarshal_two_containers:
  "Unmarshal (scan_as two_containers) jsonText =
     Inr (Some [zero_InspectData
       \<lparr>InspectData_Name := ''/web'',
        InspectData_Config := zero_Config\<lparr>Config_Image := ''nginx''\<rparr>,
        InspectData_HostConfig := zero_HostConfig
          \<lparr>HostConfig_RestartPolicy :=
             \<lparr>RestartPolicy_Name = ''always'', RestartPolicy_MaximumRetryCount = 0\<rparr>\<rparr>\<rparr>,
       zero_InspectData
       \<lparr>InspectData_Name := ''/db'',
        InspectData_Config := zero_Config\<lparr>Config_Image := ''redis''\<rparr>\<rparr>])"
  by (simp add: two_containers_def decode_defs)

text \<open>
  C3, as amended. The parser returns the error \<open>MalformedJSON\<close> exactly when
  \<^verbatim>\<open>json.Unmarshal\<close> rejects the text: when it is not valid JSON, or when it is valid
  JSON in which some value has another type than the one \<^verbatim>\<open>[]InspectData\<close> expects
  there (a top-level value that is neither an array nor \<^verbatim>\<open>null\<close>, an element that is
  neither an object nor \<^verbatim>\<open>null\<close>, a member of a known name with a value of the wrong
  type); \<^verbatim>\<open>null\<close> is accepted in the place of any value. It returns the error
  \<open>EmptyResult\<close> exactly when the text is the empty array or \<^verbatim>\<open>null\<close>. In every other
  case it returns the specification that lines 59 to 117 build from what the first element
  alone decodes to, which is the result for the document cut down to its first element.
  It returns either a specification or an error, never both and never neither. Leaving
  members out of an object of an accepted document leaves an accepted document, and the
  object with no members at all is accepted.
\<close>

theorem ParseInspectJSON_outcomes:
  "((ParseInspectJSON scan ports_order networks_order jsonData =
       (None, Some (MalformedJSON SyntaxError))) = (scan jsonData = None))
   \<and> ((ParseInspectJSON scan ports_order networks_order jsonData =
       (None, Some (MalformedJSON UnmarshalTypeError))) =
      (\<exists>doc. scan jsonData = Some doc \<and> \<not> expected_shape doc))
   \<and> ((ParseInspectJSON scan ports_order networks_order jsonData = (None, Some EmptyResult)) =
      (scan jsonData = Some JNull \<or> scan jsonData = Some (JArray [])))
   \<and> ((\<exists>spec. ParseInspectJSON scan ports_order networks_order jsonData = (Some spec, None)) =
      (\<exists>first others. scan jsonData = Some (JArray (first # others))
          \<and> expected_shape (JArray (first # others))))
   \<and> (scan jsonData = Some (JArray (j # js)) \<and> expected_shape (JArray (j # js)) \<longrightarrow>
        (\<exists>data. dec_struct set_InspectData j zero_InspectData = Some data
          \<and> ParseInspectJSON scan ports_order networks_order jsonData =
          (Some \<lparr>Name = TrimPrefix (InspectData_Name data) ''/'',
                 Image = Config_Image (InspectData_Config data),
                 Env = slice_of (Config_Env (InspectData_Config data)),
                 Volumes = foldl mount_step None (elems (slice_of (InspectData_Mounts data))),
                 Ports = foldl port_step None
                           (range_map ports_order
                              (NetworkSettings_Ports (InspectData_NetworkSettings data))),
                 Networks = foldl (\<lambda>networks kv. append_slice networks [fst kv]) None
                              (range_map networks_order
                                 (NetworkSettings_Networks (InspectData_NetworkSettings data))),
                 Command = slice_of (Config_Cmd (InspectData_Config data)),
                 WorkingDir = Config_WorkingDir (InspectData_Config data),
                 Labels = Config_Labels (InspectData_Config data),
                 EntryPoint = slice_of (Config_Entrypoint (InspectData_Config data)),
                 Devices = foldl device_step None
                             (elems (slice_of (HostConfig_Devices (InspectData_HostConfig data)))),
                 ExtraHosts = slice_of (HostConfig_ExtraHosts (InspectData_HostConfig data)),
                 Restart =
                   (if RestartPolicy_Name
                         (HostConfig_RestartPolicy (InspectData_HostConfig data)) = []
                    then []
                    else if RestartPolicy_Name
                              (HostConfig_RestartPolicy (InspectData_HostConfig data)) = ''no''
                    then []
                    else RestartPolicy_Name
                           (HostConfig_RestartPolicy (InspectData_HostConfig data)))\<rparr>,
           None)))
   \<and> (scan jsonData = Some (JArray (j # js)) \<and> expected_shape (JArray (j # js)) \<longrightarrow>
        ParseInspectJSON scan ports_order networks_order jsonData =
        ParseInspectJSON (scan_as (JArray [j])) ports_order networks_order jsonData)
   \<and> ((fst (ParseInspectJSON scan ports_order networks_order jsonData) = None) =
      (snd (ParseInspectJSON scan ports_order networks_order jsonData) \<noteq> None))
   \<and> \<not> expected_shape (JBool b) \<and> \<not> expected_shape (JNumber lit)
   \<and> \<not> expected_shape (JString s) \<and> \<not> expected_shape (JObject members)
   \<and> \<not> expected_shape (JArray (JString s # js)) \<and> \<not> expected_shape (JArray (JArray js' # js))
   \<and> ((key, v) \<in> set ms \<and> foldName key = ''NAME'' \<and> \<not> fits_string v \<longrightarrow>
        \<not> expected_shape (JArray (JObject ms # js)))
   \<and> \<not> expected_shape (JArray [JObject [(''Name'', JNumber ''5'')]])
   \<and> \<not> expected_shape (JArray [JObject [(''Config'', JObject [(''Env'', JString ''A=1'')])]])
   \<and> \<not> expected_shape (JArray [JObject [(''Mounts'', JObject [])]])
   \<and> (expected_shape (JArray (JObject ms # js)) \<longrightarrow>
        expected_shape (JArray (JObject (filter keep ms) # js)))
   \<and> expected_shape (JArray [JObject []])
   \<and> expected_shape JNull \<and> expected_shape (JArray [JNull])
   \<and> expected_shape (JArray [JObject [(''Name'', JNull), (''Mounts'', JNull)]])"
proof -
  have shapes: "\<not> expected_shape (JBool b)" "\<not> expected_shape (JNumber lit)"
    "\<not> expected_shape (JString s)" "\<not> expected_shape (JObject members)"
    "\<not> expected_shape (JArray (JString s # js))" "\<not> expected_shape (JArray (JArray js' # js))"
    "expected_shape (JArray [JObject []])"
    by (simp_all add: expected_shape_def fits_slice_def fits_struct_def)
  have nulls: "expected_shape JNull" "expected_shape (JArray [JNull])"
    "expected_shape (JArray [JObject [(''Name'', JNull), (''Mounts'', JNull)]])"
    by (simp_all add: expected_shape_def fits_slice_def fits_struct_def fits_InspectData_def
        fits_string_def upper_def)
  have examples: "\<not> expected_shape (JArray [JObject [(''Name'', JNumber ''5'')]])"
    "\<not> expected_shape (JArray [JObject [(''Config'', JObject [(''Env'', JString ''A=1'')])]])"
    "\<not> expected_shape (JArray [JObject [(''Mounts'', JObject [])]])"
    by (simp_all add: expected_shape_def fits_slice_def fits_struct_def fits_InspectData_def
        fits_Config_def fits_string_def upper_def)
  have bad_syntax: "(ParseInspectJSON scan ports_order networks_order jsonData =
       (None, Some (MalformedJSON SyntaxError))) = (scan jsonData = None)"
    unfolding ParseInspectJSON_malformed Unmarshal_errors ..
  have bad_type: "(ParseInspectJSON scan ports_order networks_order jsonData =
       (None, Some (MalformedJSON UnmarshalTypeError))) =
      (\<exists>doc. scan jsonData = Some doc \<and> \<not> expected_shape doc)"
    unfolding ParseInspectJSON_malformed Unmarshal_errors ..
  have no_elements: "(ParseInspectJSON scan ports_order networks_order jsonData =
       (None, Some EmptyResult)) =
      (scan jsonData = Some JNull \<or> scan jsonData = Some (JArray []))"
    unfolding ParseInspectJSON_empty Unmarshal_empty ..
  have some_spec: "(\<exists>spec. ParseInspectJSON scan ports_order networks_order jsonData =
       (Some spec, None)) =
      (\<exists>first others. scan jsonData = Some (JArray (first # others))
          \<and> expected_shape (JArray (first # others)))"
    unfolding ParseInspectJSON_spec Unmarshal_first ..
  note of_first = ParseInspectJSON_of_first [of scan jsonData j js ports_order networks_order]
  have first_only: "scan jsonData = Some (JArray (j # js)) \<and> expected_shape (JArray (j # js)) \<longrightarrow>
        ParseInspectJSON scan ports_order networks_order jsonData =
        ParseInspectJSON (scan_as (JArray [j])) ports_order networks_order jsonData"
    using ParseInspectJSON_first_only [of scan jsonData j js ports_order networks_order]
    by blast
  have bad_name: "(key, v) \<in> set ms \<and> foldName key = ''NAME'' \<and> \<not> fits_string v \<longrightarrow>
        \<not> expected_shape (JArray (JObject ms # js))"
    using expected_shape_Name [of key v ms js] by blast
  have fewer: "expected_shape (JArray (JObject ms # js)) \<longrightarrow>
        expected_shape (JArray (JObject (filter keep ms) # js))"
    using expected_shape_filter [of ms js keep] by blast
  note excl = ParseInspectJSON_exclusive [of scan ports_order networks_order jsonData]
  show ?thesis
    using of_first
    by (intro conjI bad_syntax bad_type no_elements some_spec first_only excl shapes examples
        bad_name fewer nulls) blast
qed

theorem ParseInspectJSON_outcomes_witness:
  "ParseInspectJSON (scan_as (JArray [JObject [(''Name'', JNumber ''5'')]]))
      stored_order stored_order ''[{\"Name\": 5}]'' =
      (None, Some (MalformedJSON UnmarshalTypeError))
   \<and> ParseInspectJSON (scan_as (JArray [])) stored_order stored_order ''[]'' =
      (None, Some EmptyResult)
   \<and> expected_shape two_containers
   \<and> ParseInspectJSON (scan_as two_containers) stored_order stored_order [] =
      (Some \<lparr>Name = ''web'', Image = ''nginx'', Env = None, Volumes = None, Ports = None,
             Networks = None, Command = None, WorkingDir = [], Labels = None, EntryPoint = None,
             Devices = None, ExtraHosts = None, Restart = ''always''\<rparr>, None)"
proof -
  have two: "expected_shape two_containers"
    by (simp add: two_containers_def restart_member_def expected_shape_def fits_slice_def
        fits_struct_def fits_InspectData_def fits_Config_def fits_HostConfig_def
        fits_RestartPolicy_def fits_string_def fits_int_def upper_def ParseInt_def Let_def
        is_digit_def digit_val_def digits_val_def)
  have a: "ParseInspectJSON (scan_as (JArray [JObject [(''Name'', JNumber ''5'')]]))
      stored_order stored_order ''[{\"Name\": 5}]'' =
      (None, Some (MalformedJSON UnmarshalTypeError))"
    using ParseInspectJSON_outcomes
      [where scan = "scan_as (JArray [JObject [(''Name'', JNumber ''5'')]])"
        and jsonData = "''[{\"Name\": 5}]''" and ports_order = stored_order
        and networks_order = stored_order]
    by (simp add: scan_as_def)
  have b: "ParseInspectJSON (scan_as (JArray [])) stored_order stored_order ''[]'' =
      (None, Some EmptyResult)"
    using ParseInspectJSON_outcomes [where scan = "scan_as (JArray [])"
        and jsonData = "''[]''" and ports_order = stored_order and networks_order = stored_order]
    by (simp add: scan_as_def)
  have sc: "scan_as two_containers [] =
      Some (JArray (JObject [(''Name'', JString ''/web''),
                             (''Config'', JObject [(''Image'', JString ''nginx'')]),
                             restart_member ''always'']
            # [JObject [(''Name'', JString ''/db''),
                        (''Config'', JObject [(''Image'', JString ''redis'')])]]))"
    by (simp add: scan_as_def two_containers_def)
  have d: "dec_struct set_InspectData
      (JObject [(''Name'', JString ''/web''),
                (''Config'', JObject [(''Image'', JString ''nginx'')]),
                restart_member ''always'']) zero_InspectData =
      Some (zero_InspectData
       \<lparr>InspectData_Name := ''/web'',
        InspectData_Config := zero_Config\<lparr>Config_Image := ''nginx''\<rparr>,
        InspectData_HostConfig := zero_HostConfig
          \<lparr>HostConfig_RestartPolicy :=
             \<lparr>RestartPolicy_Name = ''always'', RestartPolicy_MaximumRetryCount = 0\<rparr>\<rparr>\<rparr>)"
    by (simp add: decode_defs)
  have c: "ParseInspectJSON (scan_as two_containers) stored_order stored_order [] =
      (Some \<lparr>Name = ''web'', Image = ''nginx'', Env = None, Volumes = None, Ports = None,
             Networks = None, Command = None, WorkingDir = [], Labels = None, EntryPoint = None,
             Devices = None, ExtraHosts = None, Restart = ''always''\<rparr>, None)"
    using ParseInspectJSON_outcomes [where scan = "scan_as two_containers"
        and jsonData = "[]" and ports_order = stored_order and networks_order = stored_order
        and j = "JObject [(''Name'', JString ''/web''),
                          (''Config'', JObject [(''Image'', JString ''nginx'')]),
                          restart_member ''always'']"
        and js = "[JObject [(''Name'', JString ''/db''),
                            (''Config'', JObject [(''Image'', JString ''redis'')])]]",
        THEN conjunct2, THEN conjunct2, THEN conjunct2, THEN conjunct2, THEN conjunct1,
        rule_format, OF conjI [OF sc two [unfolded two_containers_def]], unfolded d]
    by (simp add: zero_InspectData_def zero_Config_def zero_NetworkSettings_def
        zero_HostConfig_def zero_RestartPolicy_def TrimPrefix_def)
  show ?thesis
    using a b c two by blast
qed

text \<open>
  C3 as stated does not hold: the text \<^verbatim>\<open>null\<close> is valid JSON that is not an array, and
  the parser returns \<open>EmptyResult\<close> for it, not \<open>MalformedJSON\<close>; and for the array
  \<^verbatim>\<open>[null]\<close>, whose element is not an inspection object, it returns a specification.
\<close>

theorem ParseInspectJSON_null_counterexample:
  "ParseInspectJSON (scan_as JNull) stored_order stored_order ''null'' = (None, Some EmptyResult)
   \<and> ParseInspectJSON (scan_as JNull) stored_order stored_order ''null'' \<noteq>
       (None, Some (MalformedJSON SyntaxError))
   \<and> ParseInspectJSON (scan_as JNull) stored_order stored_order ''null'' \<noteq>
       (None, Some (MalformedJSON UnmarshalTypeError))
   \<and> ParseInspectJSON (scan_as (JArray [JNull])) stored_order stored_order ''[null]'' =
       (Some \<lparr>Name = [], Image = [], Env = None, Volumes = None, Ports = None,
              Networks = None, Command = None, WorkingDir = [], Labels = None,
              EntryPoint = None, Devices = None, ExtraHosts = None, Restart = []\<rparr>, None)"
proof -
  have n: "Unmarshal (scan_as JNull) ''null'' = Inr None"
    by (simp add: decode_defs)
  have e: "Unmarshal (scan_as (JArray [JNull])) ''[null]'' = Inr (Some [zero_InspectData])"
    by (simp add: decode_defs)
  have a: "ParseInspectJSON (scan_as JNull) stored_order stored_order ''null'' =
      (None, Some EmptyResult)"
    by (simp add: ParseInspectJSON_def n len_def)
  show ?thesis
    unfolding a
    by (simp add: ParseInspectJSON_first [OF e] zero_InspectData_def zero_Config_def
        zero_NetworkSettings_def zero_HostConfig_def zero_RestartPolicy_def TrimPrefix_def)
qed

section \<open>Every order of a map's entries is a visiting order\<close>

lemma position_less: "x \<in> set ks \<Longrightarrow> position ks x < length ks"
  by (induction ks) (auto simp: position_def)

lemma position_nth: "x \<in> set ks \<Longrightarrow> ks ! position ks x = x"
  by (induction ks) (auto simp: position_def)

lemma position_inj:
  assumes "x \<in> set ks" and "position ks x = position ks y"
  shows "x = y"
proof -
  have "length (takeWhile (\<lambda>z. z \<noteq> y) ks) < length ks"
    using position_less [OF assms(1)] assms(2) by (simp add: position_def)
  then have "ks ! position ks y = y"
    using nth_length_takeWhile [of "\<lambda>z. z \<noteq> y" ks] by (simp add: position_def)
  then show ?thesis
    using position_nth [OF assms(1)] assms(2) by simp
qed

lemma position_map:
  assumes "distinct ks"
  shows "map (position ks) ks = [0..<length ks]"
proof (rule nth_equalityI)
  show "length (map (position ks) ks) = length [0..<length ks]" by simp
next
  fix i assume "i < length (map (position ks) ks)"
  then have i: "i < length ks" by simp
  then have "ks ! position ks (ks ! i) = ks ! i" and "position ks (ks ! i) < length ks"
    by (simp_all add: position_nth position_less)
  then have "position ks (ks ! i) = i"
    using assms i by (simp add: nth_eq_iff_index_eq)
  then show "map (position ks) ks ! i = [0..<length ks] ! i"
    using i by simp
qed

lemma filter_eq_distinct: "distinct xs \<Longrightarrow> k \<in> set xs \<Longrightarrow> filter (\<lambda>x. k = x) xs = [k]"
  by (induction xs) (auto simp: filter_empty_conv)

lemma range_map_any_order:
  assumes "distinct (map fst m)" and "mset p = mset m"
  shows "\<exists>order. range_map order (Some m) = p"
proof -
  let ?f = "\<lambda>kv. position (map fst p) (fst kv)"
  have "mset (map fst p) = mset (map fst m)"
    using assms(2) by simp
  then have dp: "distinct (map fst p)"
    using assms(1) by (metis mset_eq_imp_distinct_iff)
  have "map ?f p = map (position (map fst p)) (map fst p)"
    by simp
  also have "\<dots> = [0..<length (map fst p)]"
    by (rule position_map [OF dp])
  finally have sorted: "sorted (map ?f p)"
    by simp
  have inj: "\<And>a b. a \<in> set p \<Longrightarrow> b \<in> set p \<Longrightarrow> ?f a = ?f b \<Longrightarrow> a = b"
  proof -
    fix a b assume a: "a \<in> set p" and b: "b \<in> set p" and e: "?f a = ?f b"
    have "fst a \<in> set (map fst p)" using a by simp
    then have "fst a = fst b" using e by (rule position_inj)
    then show "a = b" using dp a b by (simp add: distinct_map inj_on_def)
  qed
  have sets: "set m = set p" using assms(2) by (metis set_mset_mset)
  have dm: "distinct m" and dp': "distinct p"
    using assms(1) dp by (simp_all add: distinct_map)
  have "sort_key ?f m = p"
  proof (rule properties_for_sort_key)
    show "mset p = mset m" by fact
    show "sorted (map ?f p)" by fact
    fix k assume k: "k \<in> set p"
    have "\<And>xs. distinct xs \<Longrightarrow> set xs = set p \<Longrightarrow> filter (\<lambda>x. ?f k = ?f x) xs = [k]"
    proof -
      fix xs :: "('a \<times> 'b) list" assume d: "distinct xs" and s: "set xs = set p"
      have "filter (\<lambda>x. ?f k = ?f x) xs = filter (\<lambda>x. k = x) xs"
      proof (rule filter_cong)
        fix x assume "x \<in> set xs"
        then have "x \<in> set p" using s by simp
        then show "(?f k = ?f x) = (k = x)"
          using inj [OF k] by blast
      qed simp
      also have "\<dots> = [k]"
        using d k s by (simp add: filter_eq_distinct)
      finally show "filter (\<lambda>x. ?f k = ?f x) xs = [k]" .
    qed
    then show "filter (\<lambda>x. ?f k = ?f x) p = filter (\<lambda>x. ?f k = ?f x) m"
      using dm dp' sets by simp
  qed
  then show ?thesis
    by (auto simp: range_map_def)
qed

end
